theory Spec2Isabelle
  imports Complex_Main "HOL-Library.Sublist"
begin

section \<open>Python values and exceptions\<close>

text \<open>
  The development embeds \<^verbatim>\<open>py/dual_net.py\<close>. The scalars the statistics collector
  averages are idealised as real numbers, with exact addition and division. The
  logarithm is not: what \<^verbatim>\<open>math.log\<close> returns is a parameter of the model.
  An exception is a value of \<open>py_error\<close>; a function that can raise returns
  \<open>py_error + 'a\<close>, with \<open>Inl\<close> for the exception.
\<close>

datatype py_error =
    ZeroDivisionError
  | ValueError
  | TypeError
  | OutOfRangeError
  | NotFoundError
  | FailedPreconditionError

datatype pyval = PyInt int | PyFloat real | PyStr string | PyNone

text \<open>The number a Python value denotes (0 for a value that is no number).\<close>

fun py_real :: "pyval \<Rightarrow> real" where
  "py_real (PyInt i) = of_int i"
| "py_real (PyFloat x) = x"
| "py_real (PyStr s) = 0"
| "py_real PyNone = 0"

text \<open>
  Python 3's \<^verbatim>\<open>round(x)\<close> with one argument returns an int and rounds a tie to the
  even neighbour.
\<close>

definition py_round :: "real \<Rightarrow> int" where
  "py_round x =
     (let f = \<lfloor>x\<rfloor>; d = x - of_int f
      in if d < 1 / 2 then f
         else if 1 / 2 < d then f + 1
         else if even f then f else f + 1)"

text \<open>
  \<^verbatim>\<open>math.log(x, b)\<close> raises ValueError outside its domain. Inside, it returns a double:
  the quotient of two logarithms, each rounded, rounded again. That double is close to
  \<open>ln x / ln b\<close> but is not determined by it, so it is the parameter \<open>flog\<close>:
  \<open>flog x b\<close> is the value \<^verbatim>\<open>math.log(x, b)\<close> computes.
\<close>

type_synonym float_log = "real \<Rightarrow> real \<Rightarrow> real"

definition math_log :: "float_log \<Rightarrow> real \<Rightarrow> real \<Rightarrow> py_error + real" where
  "math_log flog x b = (if x \<le> 0 then Inl ValueError else Inr (flog x b))"

text \<open>
  \<^verbatim>\<open>2 ** e\<close> for an int \<open>e\<close>: an int when the exponent is not negative, a float
  otherwise.
\<close>

definition py_pow2 :: "int \<Rightarrow> pyval" where
  "py_pow2 e = (if 0 \<le> e then PyInt (2 ^ nat e) else PyFloat (1 / 2 ^ nat (- e)))"

text \<open>\<^verbatim>\<open>2 * v\<close>: doubles a number, repeats a string, fails on None.\<close>

fun py_double :: "pyval \<Rightarrow> py_error + pyval" where
  "py_double (PyInt i) = Inr (PyInt (2 * i))"
| "py_double (PyFloat x) = Inr (PyFloat (2 * x))"
| "py_double (PyStr s) = Inr (PyStr (s @ s))"
| "py_double PyNone = Inl TypeError"

text \<open>\<^verbatim>\<open>sum(xs)\<close> adds from the left, starting at 0; \<^verbatim>\<open>a / n\<close> raises on \<open>n = 0\<close>.\<close>

definition py_sum :: "real list \<Rightarrow> real" where
  "py_sum xs = foldl (+) 0 xs"

definition py_div :: "real \<Rightarrow> nat \<Rightarrow> py_error + real" where
  "py_div a n = (if n = 0 then Inl ZeroDivisionError else Inr (a / real n))"

text \<open>\<^verbatim>\<open>p in s\<close> on strings: \<open>p\<close> occurs in \<open>s\<close> as a contiguous run.\<close>

fun py_in :: "string \<Rightarrow> string \<Rightarrow> bool" where
  "py_in p [] = (p = [])"
| "py_in p (c # cs) = (prefix p (c # cs) \<or> py_in p cs)"


section \<open>Hyperparameters\<close>

text \<open>
  \<^verbatim>\<open>def _round_power_of_two(n): return 2 ** int(round(math.log(n, 2)))\<close>
\<close>

definition round_power_of_two :: "float_log \<Rightarrow> real \<Rightarrow> py_error + pyval" where
  "round_power_of_two flog n =
     (case math_log flog n 2 of
        Inl e \<Rightarrow> Inl e
      | Inr l \<Rightarrow> Inr (py_pow2 (py_round l)))"

text \<open>
  A hyperparameter set is a Python dict from names to values. The board dimension
  \<^verbatim>\<open>go.N\<close> is a constant of a module outside this file and is taken as the parameter
  \<open>N\<close>. \<^verbatim>\<open>hparams.update(**overrides)\<close> stores every key of the overrides over the
  defaults.
\<close>

type_synonym hparams = "string \<rightharpoonup> pyval"

definition get_default_hyperparams :: "float_log \<Rightarrow> int \<Rightarrow> hparams \<Rightarrow> py_error + hparams" where
  "get_default_hyperparams flog N overrides =
     (case round_power_of_two flog ((of_int N)\<^sup>2 / 3) of
        Inl e \<Rightarrow> Inl e
      | Inr k \<Rightarrow>
          (case py_double k of
             Inl e \<Rightarrow> Inl e
           | Inr fc \<Rightarrow>
               Inr ([''k'' \<mapsto> k,
                     ''fc_width'' \<mapsto> fc,
                     ''num_shared_layers'' \<mapsto> PyInt N,
                     ''l2_strength'' \<mapsto> PyFloat (2 / 10000),
                     ''momentum'' \<mapsto> PyFloat (9 / 10)] ++ overrides)))"


section \<open>The training objective\<close>

text \<open>
  A weight tensor is modelled by the list of its entries, and
  \<^verbatim>\<open>tf.trainable_variables()\<close> by the list of the variables' names and values, in
  creation order. \<^verbatim>\<open>tf.nn.l2_loss(t)\<close> is \<open>sum (t ** 2) / 2\<close> and \<^verbatim>\<open>tf.add_n\<close>
  adds its arguments (TensorFlow rejects an empty list when the graph is built;
  \<^verbatim>\<open>dual_net\<close> always creates convolution kernels, so the list is never empty there).
\<close>

type_synonym tensor = "real list"
type_synonym variables = "(string \<times> tensor) list"

definition l2_loss :: "tensor \<Rightarrow> real" where
  "l2_loss t = (\<Sum>x\<leftarrow>t. x\<^sup>2) / 2"

definition add_n :: "real list \<Rightarrow> real" where
  "add_n ts = sum_list ts"

text \<open>
  \<^verbatim>\<open>l2_cost = 1e-4 * tf.add_n([tf.nn.l2_loss(v) for v in tf.trainable_variables()
  if not 'bias' in v.name])\<close>, inside \<^verbatim>\<open>train_ops(input_tensors, output_tensors, **hparams)\<close>.
\<close>

definition train_ops_l2_cost :: "hparams \<Rightarrow> variables \<Rightarrow> real" where
  "train_ops_l2_cost hp tvars =
     1 / 10000 *
       add_n (map (\<lambda>v. l2_loss (snd v)) (filter (\<lambda>v. \<not> py_in ''bias'' (fst v)) tvars))"

text \<open>
  The regularisation term as the specification words it: \<open>l2_strength\<close> times the sum
  of the squared norms of the trainable tensors whose name has no \<^verbatim>\<open>bias\<close> in it.
\<close>

definition spec_l2_cost :: "real \<Rightarrow> variables \<Rightarrow> real" where
  "spec_l2_cost l2_strength tvars =
     l2_strength *
       (\<Sum>v\<leftarrow>filter (\<lambda>v. \<not> py_in ''bias'' (fst v)) tvars. \<Sum>x\<leftarrow>snd v. x\<^sup>2)"


section \<open>The statistics collector\<close>

text \<open>
  \<^verbatim>\<open>class StatisticsCollector\<close>: four lists of scalars. \<^verbatim>\<open>report\<close> appends one
  scalar to each; \<^verbatim>\<open>collect\<close> divides each sum by the length, empties the lists and
  feeds the four averages to the summary node. The summary is modelled by the four
  tagged values it is built from. A \<^verbatim>\<open>collect\<close> that raises has assigned nothing, so
  it returns the collector as it was.
\<close>

record stats =
  policy_costs :: "real list"
  value_costs :: "real list"
  regularization_costs :: "real list"
  combined_costs :: "real list"

type_synonym summary = "(string \<times> real) list"

definition stats_init :: stats where
  "stats_init =
     \<lparr>policy_costs = [], value_costs = [], regularization_costs = [], combined_costs = []\<rparr>"

definition report :: "stats \<Rightarrow> real \<Rightarrow> real \<Rightarrow> real \<Rightarrow> real \<Rightarrow> stats" where
  "report s policy_cost value_cost regularization_cost combined_cost =
     s\<lparr>policy_costs := policy_costs s @ [policy_cost],
       value_costs := value_costs s @ [value_cost],
       regularization_costs := regularization_costs s @ [regularization_cost],
       combined_costs := combined_costs s @ [combined_cost]\<rparr>"

definition accuracy_summaries :: "real \<Rightarrow> real \<Rightarrow> real \<Rightarrow> real \<Rightarrow> summary" where
  "accuracy_summaries avg_pol avg_val avg_reg avg_cost =
     [(''Policy error'', avg_pol), (''Value error'', avg_val),
      (''Regularization error'', avg_reg), (''Combined cost'', avg_cost)]"

definition collect :: "stats \<Rightarrow> (py_error + summary) \<times> stats" where
  "collect s =
     (case py_div (py_sum (policy_costs s)) (length (policy_costs s)) of
        Inl e \<Rightarrow> (Inl e, s)
      | Inr avg_pol \<Rightarrow>
     (case py_div (py_sum (value_costs s)) (length (value_costs s)) of
        Inl e \<Rightarrow> (Inl e, s)
      | Inr avg_val \<Rightarrow>
     (case py_div (py_sum (regularization_costs s)) (length (regularization_costs s)) of
        Inl e \<Rightarrow> (Inl e, s)
      | Inr avg_reg \<Rightarrow>
     (case py_div (py_sum (combined_costs s)) (length (combined_costs s)) of
        Inl e \<Rightarrow> (Inl e, s)
      | Inr avg_cost \<Rightarrow>
          (Inr (accuracy_summaries avg_pol avg_val avg_reg avg_cost),
           s\<lparr>policy_costs := [], value_costs := [],
             regularization_costs := [], combined_costs := []\<rparr>)))))"

text \<open>
  A client's calls on one collector, in order. A \<^verbatim>\<open>collect\<close> that raises is caught by
  the client and the collector lives on.
\<close>

datatype stats_op = Report real real real real | Collect

fun stats_step :: "stats \<Rightarrow> stats_op \<Rightarrow> stats" where
  "stats_step s (Report p v r c) = report s p v r c"
| "stats_step s Collect = snd (collect s)"

definition stats_run :: "stats_op list \<Rightarrow> stats" where
  "stats_run ops = foldl stats_step stats_init ops"

text \<open>A run of \<^verbatim>\<open>report\<close> calls, each with its four scalars.\<close>

definition reports :: "stats \<Rightarrow> (real \<times> real \<times> real \<times> real) list \<Rightarrow> stats" where
  "reports s rs = foldl (\<lambda>s (p, v, r, c). report s p v r c) s rs"

text \<open>The arithmetic mean, and the invariant of the four lists.\<close>

definition mean :: "real list \<Rightarrow> real" where
  "mean xs = sum_list xs / real (length xs)"

definition same_lengths :: "stats \<Rightarrow> bool" where
  "same_lengths s \<longleftrightarrow>
     length (value_costs s) = length (policy_costs s) \<and>
     length (regularization_costs s) = length (policy_costs s) \<and>
     length (combined_costs s) = length (policy_costs s)"


section \<open>Graphs, sessions and files\<close>

text \<open>
  TensorFlow's objects live in an explicit store. A graph is the list of what was built
  in it, one entry per builder call of the source; a session points to its graph and
  holds the values of the variables once they are initialised. Graphs and sessions are
  allocated at the end of their lists, so an object created later never aliases an
  earlier one. \<^verbatim>\<open>with g.as_default()\<close> pushes \<open>g\<close> on the stack of default graphs;
  graph 0 is the process-wide default. A checkpoint at path \<open>p\<close> is a metadata file
  \<open>p.meta\<close> beside a data file.
\<close>

datatype node =
    InferenceInput
  | InputTensors int
  | DualNet int bool hparams
  | TrainOps hparams
  | LoggingOps
  | GlobalInit
  | Saver

record var_values =
  weights :: variables
  step_counter :: nat

record session =
  sess_graph :: nat
  sess_vars :: "var_values option"

datatype disk_file = MetaFile "node list" | DataFile var_values

datatype event = GraphEvent "node list" | ScalarEvent summary nat | WeightEvent variables nat

record world =
  graphs :: "node list list"
  sessions :: "session list"
  default_stack :: "nat list"
  files :: "string \<rightharpoonup> disk_file"
  events :: "(string \<times> event) list"
  stderr :: "string list"

definition world_init :: world where
  "world_init =
     \<lparr>graphs = [[]], sessions = [], default_stack = [], files = Map.empty,
      events = [], stderr = []\<rparr>"

text \<open>\<^verbatim>\<open>tf.Graph()\<close> and \<^verbatim>\<open>tf.Session(graph=g)\<close>: a fresh object each.\<close>

definition tf_Graph :: "world \<Rightarrow> nat \<times> world" where
  "tf_Graph w = (length (graphs w), w\<lparr>graphs := graphs w @ [[]]\<rparr>)"

definition tf_Session :: "nat \<Rightarrow> world \<Rightarrow> nat \<times> world" where
  "tf_Session g w =
     (length (sessions w),
      w\<lparr>sessions := sessions w @ [\<lparr>sess_graph = g, sess_vars = None\<rparr>]\<rparr>)"

definition get_default_graph :: "world \<Rightarrow> nat" where
  "get_default_graph w = (case default_stack w of [] \<Rightarrow> 0 | g # _ \<Rightarrow> g)"

definition as_default_enter :: "nat \<Rightarrow> world \<Rightarrow> world" where
  "as_default_enter g w = w\<lparr>default_stack := g # default_stack w\<rparr>"

definition as_default_exit :: "world \<Rightarrow> world" where
  "as_default_exit w = w\<lparr>default_stack := tl (default_stack w)\<rparr>"

text \<open>Every builder call adds to the current default graph.\<close>

definition add_node :: "node \<Rightarrow> world \<Rightarrow> world" where
  "add_node n w =
     (let g = get_default_graph w in w\<lparr>graphs := (graphs w)[g := graphs w ! g @ [n]]\<rparr>)"

definition set_vars :: "nat \<Rightarrow> var_values \<Rightarrow> world \<Rightarrow> world" where
  "set_vars s v w =
     w\<lparr>sessions := (sessions w)[s := (sessions w ! s)\<lparr>sess_vars := Some v\<rparr>]\<rparr>"

text \<open>
  The builder calls that create variables: the network creates the weights, the
  training objective creates the step counter.
\<close>

fun creates_variables :: "node \<Rightarrow> bool" where
  "creates_variables (DualNet b t hp) = True"
| "creates_variables (TrainOps hp) = True"
| "creates_variables InferenceInput = False"
| "creates_variables (InputTensors b) = False"
| "creates_variables LoggingOps = False"
| "creates_variables GlobalInit = False"
| "creates_variables Saver = False"

definition has_variables :: "node list \<Rightarrow> bool" where
  "has_variables ns = list_ex creates_variables ns"

text \<open>
  \<^verbatim>\<open>sess.run(tf.global_variables_initializer())\<close>: the initialiser is built in the
  default graph, and a session runs only what is in its own graph. The weights get the
  values \<open>rnd\<close> their random initialisers draw (none when the graph has no variables),
  the step counter gets 0.
\<close>

definition run_global_variables_initializer ::
  "nat \<Rightarrow> variables \<Rightarrow> world \<Rightarrow> py_error + world" where
  "run_global_variables_initializer s rnd w =
     (let w' = add_node GlobalInit w;
          g = get_default_graph w'
      in if sess_graph (sessions w' ! s) \<noteq> g then Inl ValueError
         else Inr (set_vars s
                     \<lparr>weights = (if has_variables (graphs w' ! g) then rnd else []),
                      step_counter = 0\<rparr> w'))"

definition os_path_exists :: "world \<Rightarrow> string \<Rightarrow> bool" where
  "os_path_exists w p \<longleftrightarrow> files w p \<noteq> None"

definition data_path :: "string \<Rightarrow> string" where
  "data_path p = p @ ''.data-00000-of-00001''"

text \<open>
  \<^verbatim>\<open>tf.train.Saver()\<close> builds the saver for the variables of the default graph, adds
  its nodes there, and raises ValueError when that graph has no variables.
\<close>

definition tf_train_Saver :: "world \<Rightarrow> py_error + world" where
  "tf_train_Saver w =
     (if has_variables (graphs w ! get_default_graph w) then Inr (add_node Saver w)
      else Inl ValueError)"

text \<open>
  \<^verbatim>\<open>tf.train.Saver().restore(sess, p)\<close> and \<^verbatim>\<open>tf.train.Saver().save(sess, p)\<close>. The
  saver is built first. A session runs only the saver of its own graph. Restoring fails
  when there is no checkpoint data at \<open>p\<close>; saving fails without a path and on
  uninitialised variables.
\<close>

definition Saver_restore :: "nat \<Rightarrow> string \<Rightarrow> world \<Rightarrow> py_error + world" where
  "Saver_restore s p w =
     (case tf_train_Saver w of
        Inl e \<Rightarrow> Inl e
      | Inr w' \<Rightarrow>
          if sess_graph (sessions w' ! s) \<noteq> get_default_graph w' then Inl ValueError
          else (case files w' (data_path p) of
                  Some (DataFile v) \<Rightarrow> Inr (set_vars s v w')
                | _ \<Rightarrow> Inl NotFoundError))"

definition Saver_save :: "nat \<Rightarrow> string option \<Rightarrow> world \<Rightarrow> py_error + world" where
  "Saver_save s path w =
     (case tf_train_Saver w of
        Inl e \<Rightarrow> Inl e
      | Inr w' \<Rightarrow>
          (case path of
             None \<Rightarrow> Inl TypeError
           | Some p \<Rightarrow>
               if sess_graph (sessions w' ! s) \<noteq> get_default_graph w' then Inl ValueError
               else (case sess_vars (sessions w' ! s) of
                       None \<Rightarrow> Inl FailedPreconditionError
                     | Some v \<Rightarrow>
                         Inr (w'\<lparr>files := (files w')
                                (p @ ''.meta'' \<mapsto> MetaFile (graphs w' ! get_default_graph w'),
                                 data_path p \<mapsto> DataFile v)\<rparr>))))"

definition print_stderr :: "string \<Rightarrow> world \<Rightarrow> world" where
  "print_stderr l w = w\<lparr>stderr := stderr w @ [l]\<rparr>"

text \<open>\<^verbatim>\<open>tf.summary.FileWriter(logdir, graph)\<close> writes the graph to the log.\<close>

definition FileWriter :: "string \<Rightarrow> nat \<Rightarrow> world \<Rightarrow> world" where
  "FileWriter logdir g w = w\<lparr>events := events w @ [(logdir, GraphEvent (graphs w ! g))]\<rparr>"


section \<open>The trainer\<close>

definition EXAMPLES_PER_GENERATION :: int where
  "EXAMPLES_PER_GENERATION = 2000000"

definition TRAIN_BATCH_SIZE :: int where
  "TRAIN_BATCH_SIZE = 16"

record trainer =
  hparams :: hparams
  save_file :: "string option"
  sess :: nat

text \<open>
  \<^verbatim>\<open>DualNetworkTrainer.__init__(self, save_file=None, **hparams)\<close>: resolves the
  hyperparameters and creates the trainer's own session over a new graph.
\<close>

definition DualNetworkTrainer ::
  "float_log \<Rightarrow> int \<Rightarrow> string option \<Rightarrow> hparams \<Rightarrow> world \<Rightarrow> py_error + trainer \<times> world" where
  "DualNetworkTrainer flog N sf overrides w =
     (case get_default_hyperparams flog N overrides of
        Inl e \<Rightarrow> Inl e
      | Inr hp \<Rightarrow>
          (let (g, w1) = tf_Graph w;
               (s, w2) = tf_Session g w1
           in Inr (\<lparr>hparams = hp, save_file = sf, sess = s\<rparr>, w2)))"

text \<open>
  \<^verbatim>\<open>initialize_weights(self, init_from=None)\<close>. The first branch returns before
  anything is printed.
\<close>

definition initialize_weights ::
  "trainer \<Rightarrow> string option \<Rightarrow> variables \<Rightarrow> world \<Rightarrow> py_error + world" where
  "initialize_weights tr init_from rnd w =
     (if save_file tr \<noteq> None \<and> os_path_exists w (the (save_file tr) @ ''.meta'')
      then Saver_restore (sess tr) (the (save_file tr)) w
      else (case init_from of
              Some p \<Rightarrow>
                Saver_restore (sess tr) p (print_stderr (''Initializing from '' @ p) w)
            | None \<Rightarrow>
                run_global_variables_initializer (sess tr) rnd
                  (print_stderr ''Bootstrapping with random weights'' w)))"

definition save_weights :: "trainer \<Rightarrow> world \<Rightarrow> py_error + world" where
  "save_weights tr w =
     (case Saver_save (sess tr) (save_file tr)
             (as_default_enter (sess_graph (sessions w ! sess tr)) w) of
        Inl e \<Rightarrow> Inl e
      | Inr w' \<Rightarrow> Inr (as_default_exit w'))"

text \<open>
  \<^verbatim>\<open>bootstrap(self)\<close>: a local session over a new graph; the network, the objective,
  the initialiser and the saver are built and run there.
\<close>

definition bootstrap :: "trainer \<Rightarrow> variables \<Rightarrow> world \<Rightarrow> py_error + world" where
  "bootstrap tr rnd w =
     (let (g, w1) = tf_Graph w;
          (s, w2) = tf_Session g w1;
          w3 = as_default_enter (sess_graph (sessions w2 ! s)) w2;
          w4 = add_node InferenceInput w3;
          w5 = add_node (DualNet TRAIN_BATCH_SIZE True (hparams tr)) w4;
          w6 = add_node (TrainOps (hparams tr)) w5
      in case run_global_variables_initializer s rnd w6 of
           Inl e \<Rightarrow> Inl e
         | Inr w7 \<Rightarrow>
             (case Saver_save s (save_file tr) w7 of
                Inl e \<Rightarrow> Inl e
              | Inr w8 \<Rightarrow> Inr (as_default_exit w8)))"

text \<open>
  Modelled from the spec: \<^verbatim>\<open>preprocessing.get_input_tensors\<close>, the example source, is
  not among the sources. The specification describes it as a blocking pull-one-batch
  operation that signals exhaustion, so the source is the list of the batches it will
  still yield, and a pull from the empty list raises OutOfRangeError.

  \<^verbatim>\<open>self.sess.run(train_tensors)\<close> pulls one batch, lets the optimiser update the
  weights and increments the step counter. The optimiser and the two data-dependent
  costs are TensorFlow's numerics and are the parameter \<open>optimise\<close>: from the weights
  and a batch it gives the new weights, the policy cost and the value cost.
  TensorFlow does not order the read of the counter against its increment; the model
  returns the incremented counter.
\<close>

text \<open>The values one run of the training tensors returns.\<close>

record tensor_values =
  policy_cost :: real
  value_cost :: real
  l2_cost :: real
  combined_cost :: real
  global_step :: nat

type_synonym 'b train_step = "variables \<Rightarrow> 'b \<Rightarrow> variables \<times> real \<times> real"

definition run_train_tensors ::
  "'b train_step \<Rightarrow> hparams \<Rightarrow> nat \<Rightarrow> 'b list \<Rightarrow> world \<Rightarrow>
     py_error + tensor_values \<times> 'b list \<times> world" where
  "run_train_tensors optimise hp s batches w =
     (case sess_vars (sessions w ! s) of
        None \<Rightarrow> Inl FailedPreconditionError
      | Some v \<Rightarrow>
          (case batches of
             [] \<Rightarrow> Inl OutOfRangeError
           | b # rest \<Rightarrow>
               (let (ws, pc, vc) = optimise (weights v) b;
                    l2 = train_ops_l2_cost hp (weights v);
                    gs = step_counter v + 1
                in Inr (\<lparr>policy_cost = pc, value_cost = vc, l2_cost = l2,
                          combined_cost = pc + vc + l2, global_step = gs\<rparr>,
                        rest,
                        set_vars s \<lparr>weights = ws, step_counter = gs\<rparr> w))))"

text \<open>
  The state of the loop of \<^verbatim>\<open>train\<close>: the store, the log directory with the
  statistics collector (both exist exactly when \<^verbatim>\<open>logdir\<close> is given), and the
  example source.
\<close>

record 'b loop_state =
  wld :: world
  logging :: "(string \<times> stats) option"
  src :: "'b list"

text \<open>The body of the loop after a successful step \<open>i\<close>: the logging.\<close>

definition log_step ::
  "trainer \<Rightarrow> nat \<Rightarrow> tensor_values \<Rightarrow> 'b loop_state \<Rightarrow> py_error + 'b loop_state" where
  "log_step tr i tv st =
     (case logging st of
        None \<Rightarrow> Inr st
      | Some (logdir, training_stats) \<Rightarrow>
          (let reported = report training_stats (policy_cost tv) (value_cost tv)
                            (l2_cost tv) (combined_cost tv)
           in if i mod 100 = 0
              then (case collect reported of
                      (Inl e, _) \<Rightarrow> Inl e
                    | (Inr accuracy, collected) \<Rightarrow>
                        (case sess_vars (sessions (wld st) ! sess tr) of
                           None \<Rightarrow> Inl FailedPreconditionError
                         | Some v \<Rightarrow>
                             Inr (st\<lparr>logging := Some (logdir, collected),
                                     wld := (wld st)\<lparr>events := events (wld st) @
                                        [(logdir, ScalarEvent accuracy (global_step tv)),
                                         (logdir, WeightEvent (weights v) (global_step tv))]\<rparr>\<rparr>)))
              else Inr (st\<lparr>logging := Some (logdir, reported)\<rparr>)))"

text \<open>
  \<^verbatim>\<open>for i in tqdm(range(num_steps))\<close>: OutOfRangeError leaves the loop, any other
  exception leaves \<^verbatim>\<open>train\<close>.
\<close>

fun train_loop ::
  "'b train_step \<Rightarrow> trainer \<Rightarrow> nat list \<Rightarrow> 'b loop_state \<Rightarrow> py_error + 'b loop_state" where
  "train_loop optimise tr [] st = Inr st"
| "train_loop optimise tr (i # rest) st =
     (case run_train_tensors optimise (hparams tr) (sess tr) (src st) (wld st) of
        Inl e \<Rightarrow> if e = OutOfRangeError then Inr st else Inl e
      | Inr (tv, remaining, w) \<Rightarrow>
          (case log_step tr i tv (st\<lparr>wld := w, src := remaining\<rparr>) of
             Inl e \<Rightarrow> Inl e
           | Inr st' \<Rightarrow> train_loop optimise tr rest st'))"

text \<open>The four builder calls at the head of \<^verbatim>\<open>train\<close>, in the trainer's own graph.\<close>

definition train_graph :: "trainer \<Rightarrow> world \<Rightarrow> world" where
  "train_graph tr w =
     add_node LoggingOps
       (add_node (TrainOps (hparams tr))
          (add_node (DualNet TRAIN_BATCH_SIZE True (hparams tr))
             (add_node (InputTensors TRAIN_BATCH_SIZE)
                (as_default_enter (sess_graph (sessions w ! sess tr)) w))))"

text \<open>
  \<^verbatim>\<open>train(self, tf_records, init_from=None, logdir=None, num_steps=None)\<close>;
  \<open>tf_records\<close> is the list of batches the record files yield.
\<close>

definition train ::
  "'b train_step \<Rightarrow> trainer \<Rightarrow> 'b list \<Rightarrow> string option \<Rightarrow> string option \<Rightarrow> int option \<Rightarrow>
     variables \<Rightarrow> world \<Rightarrow> py_error + world" where
  "train optimise tr tf_records init_from logdir num_steps rnd w =
     (let n = (case num_steps of
                 None \<Rightarrow> EXAMPLES_PER_GENERATION div TRAIN_BATCH_SIZE
               | Some k \<Rightarrow> k)
      in case initialize_weights tr init_from rnd (train_graph tr w) of
           Inl e \<Rightarrow> Inl e
         | Inr w1 \<Rightarrow>
             (let st = (case logdir of
                          None \<Rightarrow> \<lparr>wld = w1, logging = None, src = tf_records\<rparr>
                        | Some d \<Rightarrow>
                            \<lparr>wld = FileWriter d (sess_graph (sessions w1 ! sess tr)) w1,
                             logging = Some (d, stats_init), src = tf_records\<rparr>)
              in case train_loop optimise tr [0..<nat n] st of
                   Inl e \<Rightarrow> Inl e
                 | Inr st' \<Rightarrow>
                     (case save_weights tr (wld st') of
                        Inl e \<Rightarrow> Inl e
                      | Inr w2 \<Rightarrow> Inr (as_default_exit w2))))"

text \<open>
  For the statements about \<^verbatim>\<open>train\<close>: the number of iterations \<^verbatim>\<open>range(num_steps)\<close>
  has, and the weights after the optimiser has consumed a list of batches in order.
\<close>

definition steps_requested :: "int option \<Rightarrow> nat" where
  "steps_requested num_steps =
     nat (case num_steps of
            None \<Rightarrow> EXAMPLES_PER_GENERATION div TRAIN_BATCH_SIZE
          | Some k \<Rightarrow> k)"

definition sgd :: "'b train_step \<Rightarrow> variables \<Rightarrow> 'b list \<Rightarrow> variables" where
  "sgd optimise ws bs = foldl (\<lambda>ws b. fst (optimise ws b)) ws bs"

text \<open>Two stores agree on everything but the log and the error stream.\<close>

definition same_tf :: "world \<Rightarrow> world \<Rightarrow> bool" where
  "same_tf w w' \<longleftrightarrow>
     sessions w' = sessions w \<and> graphs w' = graphs w \<and>
     files w' = files w \<and> default_stack w' = default_stack w"

text \<open>
  A step keeps session \<open>s\<close>: no session is lost, \<open>s\<close> stays over its graph, and a graph
  with variables still has them.
\<close>

definition keeps_session :: "nat \<Rightarrow> world \<Rightarrow> world \<Rightarrow> bool" where
  "keeps_session s w w' \<longleftrightarrow>
     length (sessions w') = length (sessions w) \<and>
     sess_graph (sessions w' ! s) = sess_graph (sessions w ! s) \<and>
     (\<forall>g. has_variables (graphs w ! g) \<longrightarrow> has_variables (graphs w' ! g))"


section \<open>The inference engine\<close>

text \<open>
  \<^verbatim>\<open>DualNetwork.run_many(self, positions, use_random_symmetry=True)\<close>. The feature
  extractor, the action of a symmetry on a feature tensor and on a policy, the inverse
  of a symmetry and the forward pass of the session are collaborators outside this file
  and are parameters.
\<close>

datatype symmetry = Sym0 | Sym1 | Sym2 | Sym3 | Sym4 | Sym5 | Sym6 | Sym7

record 'p outputs =
  policy_output :: "'p list"
  value_output :: "real list"

record ('pos, 'f, 'p) collaborators =
  extract_features :: "'pos \<Rightarrow> 'f"
  apply_symmetry_feat :: "symmetry \<Rightarrow> 'f \<Rightarrow> 'f"
  apply_symmetry_pi :: "symmetry \<Rightarrow> 'p \<Rightarrow> 'p"
  invert_symmetry :: "symmetry \<Rightarrow> symmetry"
  forward :: "'f list \<Rightarrow> 'p outputs"

text \<open>
  Modelled from the spec: \<^verbatim>\<open>symmetries.randomize_symmetries_feat\<close> is not among the
  sources. The specification gives it as \<open>randomize_symmetries(batch) ->
  (chosen_symmetries, transformed_batch)\<close>, one of the eight dihedral symmetries of the
  board chosen independently per example. The draw for example \<open>i\<close> is \<open>choice i\<close>, an
  arbitrary function, so every combination of symmetries can occur.
\<close>

definition randomize_symmetries_feat ::
  "('pos, 'f, 'p) collaborators \<Rightarrow> (nat \<Rightarrow> symmetry) \<Rightarrow> 'f list \<Rightarrow> symmetry list \<times> 'f list" where
  "randomize_symmetries_feat c choice feats =
     (let syms_used = map choice [0..<length feats]
      in (syms_used, map2 (apply_symmetry_feat c) syms_used feats))"

text \<open>
  Modelled from the spec: \<^verbatim>\<open>symmetries.invert_symmetries_pi\<close> is not among the sources.
  The specification gives it as \<open>invert_symmetries(chosen_symmetries, policy_batch) ->
  policy_batch\<close>, the inverse symmetry applied per example.
\<close>

definition invert_symmetries_pi ::
  "('pos, 'f, 'p) collaborators \<Rightarrow> symmetry list \<Rightarrow> 'p list \<Rightarrow> 'p list" where
  "invert_symmetries_pi c syms pis =
     map2 (\<lambda>s pi. apply_symmetry_pi c (invert_symmetry c s) pi) syms pis"

definition run_many ::
  "('pos, 'f, 'p) collaborators \<Rightarrow> (nat \<Rightarrow> symmetry) \<Rightarrow> 'pos list \<Rightarrow> bool \<Rightarrow>
     'p list \<times> real list" where
  "run_many c choice positions use_random_symmetry =
     (let processed = map (extract_features c) positions;
          (syms_used, processed) =
             (if use_random_symmetry then randomize_symmetries_feat c choice processed
              else ([], processed));
          outs = forward c processed;
          probabilities = policy_output outs;
          val = value_output outs;
          probabilities =
             (if use_random_symmetry then invert_symmetries_pi c syms_used probabilities
              else probabilities)
      in (probabilities, val))"

text \<open>
  For the statement about \<^verbatim>\<open>run_many\<close>: the symmetries drawn for a batch and the
  feature tensors the forward pass is fed.
\<close>

definition syms_drawn :: "(nat \<Rightarrow> symmetry) \<Rightarrow> 'pos list \<Rightarrow> symmetry list" where
  "syms_drawn choice positions = map choice [0..<length positions]"

definition features_fed ::
  "('pos, 'f, 'p) collaborators \<Rightarrow> (nat \<Rightarrow> symmetry) \<Rightarrow> 'pos list \<Rightarrow> 'f list" where
  "features_fed c choice positions =
     map2 (apply_symmetry_feat c) (syms_drawn choice positions)
       (map (extract_features c) positions)"


section \<open>Example inputs\<close>

text \<open>
  Two instances of the logarithm parameter. The first is the exact logarithm; it
  stands for \<^verbatim>\<open>math.log\<close> in the examples whose logarithm is far from a tie of the
  rounding. The second records one value of CPython's \<^verbatim>\<open>math.log\<close>: at the double
  \<^verbatim>\<open>0x1.6a09e667f3bccp+1\<close>, just below \<open>2 * sqrt 2\<close>, \<^verbatim>\<open>math.log(x, 2)\<close> is the double
  1.5, although the binary logarithm of that number is below 1.5.
\<close>

definition exact_log :: float_log where
  "exact_log x b = ln x / ln b"

definition tie_input :: real where
  "tie_input = 1592262918131443 / 562949953421312"

definition tie_log :: float_log where
  "tie_log x b = (if x = tie_input \<and> b = 2 then 3 / 2 else ln x / ln b)"

text \<open>
  The trainer \<^verbatim>\<open>DualNetworkTrainer('m')\<close> on a 19x19 board, constructed in the initial
  store, and the store after its construction: the session, over graph 1, is not
  initialised.
\<close>

definition hparams_19 :: hparams where
  "hparams_19 =
     [''k'' \<mapsto> PyInt 128, ''fc_width'' \<mapsto> PyInt 256, ''num_shared_layers'' \<mapsto> PyInt 19,
      ''l2_strength'' \<mapsto> PyFloat (2 / 10000), ''momentum'' \<mapsto> PyFloat (9 / 10)]"

definition demo_trainer :: trainer where
  "demo_trainer = \<lparr>hparams = hparams_19, save_file = Some ''m'', sess = 0\<rparr>"

definition demo_world :: world where
  "demo_world =
     \<lparr>graphs = [[], []], sessions = [\<lparr>sess_graph = 1, sess_vars = None\<rparr>],
      default_stack = [], files = Map.empty, events = [], stderr = []\<rparr>"

text \<open>An optimiser on batches of one number: it adds the batch to every weight.\<close>

definition demo_optimise :: "real train_step" where
  "demo_optimise ws b = (map (\<lambda>(n, t). (n, map (\<lambda>x. x + b) t)) ws, b, 0)"

text \<open>
  The store as \<^verbatim>\<open>train\<close> has it when it calls \<^verbatim>\<open>initialize_weights\<close> (the trainer's
  graph built and entered), with a newer checkpoint at \<open>m\<close> and an older one at \<open>old\<close>.
\<close>

definition newer :: var_values where
  "newer = \<lparr>weights = [(''conv2d/kernel'', [2])], step_counter = 200\<rparr>"

definition older :: var_values where
  "older = \<lparr>weights = [(''conv2d/kernel'', [1])], step_counter = 100\<rparr>"

definition both_files :: "string \<rightharpoonup> disk_file" where
  "both_files =
     [''m.meta'' \<mapsto> MetaFile [], data_path ''m'' \<mapsto> DataFile newer,
      ''old.meta'' \<mapsto> MetaFile [], data_path ''old'' \<mapsto> DataFile older]"

definition both_world :: world where
  "both_world =
     \<lparr>graphs = [[], [InputTensors TRAIN_BATCH_SIZE, DualNet TRAIN_BATCH_SIZE True hparams_19,
                      TrainOps hparams_19, LoggingOps]],
      sessions = [\<lparr>sess_graph = 1, sess_vars = None\<rparr>],
      default_stack = [1], files = both_files, events = [], stderr = []\<rparr>"

text \<open>The same store with no checkpoint at \<open>m\<close>, and with none at all.\<close>

definition old_only_world :: world where
  "old_only_world =
     both_world\<lparr>files := [''old.meta'' \<mapsto> MetaFile [], data_path ''old'' \<mapsto> DataFile older]\<rparr>"

definition no_checkpoint_world :: world where
  "no_checkpoint_world = both_world\<lparr>files := Map.empty\<rparr>"

text \<open>One kernel and one bias.\<close>

definition demo_vars :: variables where
  "demo_vars = [(''conv2d/kernel:0'', [1, 1]), (''conv2d/bias:0'', [3])]"

text \<open>
  Collaborators on numbers: a symmetry adds its index to a feature and ten times its
  index to a policy, the inverse of symmetry \<open>k\<close> is symmetry \<open>7 - k\<close>, and the network
  returns its input as the policy and as the value.
\<close>

fun sym_index :: "symmetry \<Rightarrow> nat" where
  "sym_index Sym0 = 0"
| "sym_index Sym1 = 1"
| "sym_index Sym2 = 2"
| "sym_index Sym3 = 3"
| "sym_index Sym4 = 4"
| "sym_index Sym5 = 5"
| "sym_index Sym6 = 6"
| "sym_index Sym7 = 7"

fun sym_opposite :: "symmetry \<Rightarrow> symmetry" where
  "sym_opposite Sym0 = Sym7"
| "sym_opposite Sym1 = Sym6"
| "sym_opposite Sym2 = Sym5"
| "sym_opposite Sym3 = Sym4"
| "sym_opposite Sym4 = Sym3"
| "sym_opposite Sym5 = Sym2"
| "sym_opposite Sym6 = Sym1"
| "sym_opposite Sym7 = Sym0"

definition demo_collaborators :: "(nat, nat, nat) collaborators" where
  "demo_collaborators =
     \<lparr>extract_features = (\<lambda>p. p),
      apply_symmetry_feat = (\<lambda>s f. f + sym_index s),
      apply_symmetry_pi = (\<lambda>s p. p + 10 * sym_index s),
      invert_symmetry = sym_opposite,
      forward = (\<lambda>fs. \<lparr>policy_output = fs, value_output = map real fs\<rparr>)\<rparr>"

definition demo_choice :: "nat \<Rightarrow> symmetry" where
  "demo_choice i = (if i = 0 then Sym1 else Sym5)"


section \<open>Properties of the hyperparameter resolver\<close>

lemma py_round_near: "\<bar>of_int (py_round x) - x\<bar> \<le> 1 / 2"
  unfolding py_round_def Let_def by (auto; linarith)

lemma py_real_pow2: "py_real (py_pow2 e) = 2 powr (of_int e)"
proof (cases "0 \<le> e")
  case True
  then have "2 powr (of_int e) = (2::real) ^ nat e"
    by (simp add: powr_real_of_int)
  with True show ?thesis by (simp add: py_pow2_def)
next
  case False
  then have "2 powr (of_int e) = inverse ((2::real) ^ nat (- e))"
    by (simp add: powr_real_of_int)
  with False show ?thesis by (simp add: py_pow2_def inverse_eq_divide)
qed

lemma py_round_eqI:
  assumes "of_int k - 1 / 2 < x" and "x < of_int k + 1 / 2"
  shows "py_round x = k"
proof -
  have "\<bar>of_int (py_round x) - x\<bar> \<le> 1 / 2" by (rule py_round_near)
  with assms have "of_int (py_round x) < (of_int k + 1 :: real)"
    and "(of_int k - 1 :: real) < of_int (py_round x)" by linarith+
  then have "py_round x < k + 1" and "k - 1 < py_round x"
    by linarith+
  then show ?thesis by linarith
qed

text \<open>
  A way to evaluate the rounded binary logarithm without computing a logarithm:
  \<open>k - 1/2 < log\<^sub>2 n < k + 1/2\<close> is a comparison of \<open>n\<^sup>2\<close> with two powers of two.
\<close>

lemma py_round_log2I:
  fixes n :: real and k :: nat
  assumes n: "0 < n" and k: "0 < k"
    and lo: "2 ^ (2 * k - 1) < n\<^sup>2" and hi: "n\<^sup>2 < 2 ^ (2 * k + 1)"
  shows "py_round (log 2 n) = int k"
proof -
  have sq: "log 2 (n\<^sup>2) = 2 * log 2 n"
    using n by (simp add: log_nat_power)
  have plo: "2 powr real (2 * k - 1) = (2::real) ^ (2 * k - 1)"
    and phi: "2 powr real (2 * k + 1) = (2::real) ^ (2 * k + 1)"
    by (rule powr_realpow, simp)+
  have "2 powr real (2 * k - 1) < n\<^sup>2"
    unfolding plo by (rule lo)
  then have "real (2 * k - 1) < log 2 (n\<^sup>2)"
    using n by (subst less_log_iff) simp_all
  moreover have "n\<^sup>2 < 2 powr real (2 * k + 1)"
    unfolding phi by (rule hi)
  then have "log 2 (n\<^sup>2) < real (2 * k + 1)"
    using n by (subst log_less_iff) simp_all
  ultimately have "real (2 * k - 1) < 2 * log 2 n" "2 * log 2 n < real (2 * k + 1)"
    using sq by simp_all
  moreover have "real (2 * k - 1) = 2 * real k - 1"
    using k by (simp add: of_nat_diff)
  ultimately show ?thesis
    by (intro py_round_eqI) simp_all
qed

lemma round_power_of_two_pos:
  "0 < n \<Longrightarrow> round_power_of_two flog n = Inr (py_pow2 (py_round (flog n 2)))"
  by (simp add: round_power_of_two_def math_log_def)

lemma exact_log_2: "exact_log n 2 = log 2 n"
  by (simp add: exact_log_def log_def)

lemma round_power_of_two_19: "round_power_of_two exact_log (361 / 3) = Inr (PyInt 128)"
proof -
  have "py_round (log 2 (361 / 3)) = 7"
    using py_round_log2I [of "361 / 3" 7] by (simp add: power2_eq_square)
  then show ?thesis
    by (simp add: round_power_of_two_pos exact_log_2 py_pow2_def)
qed

lemma round_power_of_two_9: "round_power_of_two exact_log 27 = Inr (PyInt 32)"
proof -
  have "py_round (log 2 27) = 5"
    using py_round_log2I [of 27 5] by (simp add: power2_eq_square)
  then show ?thesis
    by (simp add: round_power_of_two_pos exact_log_2 py_pow2_def)
qed

text \<open>The two examples of the docstring: 84 goes to 64 and 120 to 128.\<close>

lemma round_power_of_two_docstring:
  "round_power_of_two exact_log 84 = Inr (PyInt 64)"
  "round_power_of_two exact_log 120 = Inr (PyInt 128)"
proof -
  have "py_round (log 2 84) = 6"
    using py_round_log2I [of 84 6] by (simp add: power2_eq_square)
  then show "round_power_of_two exact_log 84 = Inr (PyInt 64)"
    by (simp add: round_power_of_two_pos exact_log_2 py_pow2_def)
  have "py_round (log 2 120) = 7"
    using py_round_log2I [of 120 7] by (simp add: power2_eq_square)
  then show "round_power_of_two exact_log 120 = Inr (PyInt 128)"
    by (simp add: round_power_of_two_pos exact_log_2 py_pow2_def)
qed

text \<open>
  The tie: the number is positive, its square is below 8, so its binary logarithm is
  below 3/2 and rounds to 1; the recorded double 1.5 rounds to the even neighbour 2.
\<close>

lemma tie_input_pos: "0 < tie_input"
  by (simp add: tie_input_def)

lemma tie_input_sq: "2 < tie_input\<^sup>2" "tie_input\<^sup>2 < 8"
  by (simp_all add: tie_input_def power2_eq_square)

lemma log_tie_input: "log 2 tie_input < 3 / 2"
proof -
  have "log 2 (tie_input\<^sup>2) = 2 * log 2 tie_input"
    using tie_input_pos by (simp add: log_nat_power)
  moreover have "(2::real) powr 3 = 8"
    using powr_realpow [of "2::real" 3] by simp
  then have "log 2 (tie_input\<^sup>2) < 3"
    using tie_input_pos tie_input_sq(2) by (subst log_less_iff) simp_all
  ultimately show ?thesis by simp
qed

lemma py_round_log_tie_input: "py_round (log 2 tie_input) = 1"
  using py_round_log2I [of tie_input 1] tie_input_pos tie_input_sq by simp

lemma py_round_three_halves: "py_round (3 / 2) = 2"
proof -
  have "\<lfloor>3 / 2 :: real\<rfloor> = 1" by linarith
  then show ?thesis by (simp add: py_round_def Let_def)
qed

lemma round_power_of_two_tie: "round_power_of_two tie_log tie_input = Inr (PyInt 4)"
  using tie_input_pos
  by (simp add: round_power_of_two_pos tie_log_def py_round_three_halves py_pow2_def)

text \<open>
  C7, as stated, fails. At the tie the code returns 4, where 2 raised to the rounded
  binary logarithm is 2, and the binary logarithm of 4 is more than one half above that
  of the input.
\<close>

theorem round_power_of_two_tie_counterexample:
  "round_power_of_two tie_log tie_input = Inr (PyInt 4) \<and>
   py_pow2 (py_round (log 2 tie_input)) = PyInt 2 \<and>
   \<not> \<bar>log 2 (py_real (PyInt 4)) - log 2 tie_input\<bar> \<le> 1 / 2"
proof -
  have "log 2 (4::real) = 2"
    using log_pow_cancel [of "2::real" 2] by simp
  then have "\<not> \<bar>log 2 (py_real (PyInt 4)) - log 2 tie_input\<bar> \<le> 1 / 2"
    using log_tie_input by simp
  then show ?thesis
    by (simp add: round_power_of_two_tie py_round_log_tie_input py_pow2_def)
qed

text \<open>
  C7, amended. For every positive \<open>n\<close>, \<^verbatim>\<open>_round_power_of_two(n)\<close> returns 2 raised to
  the rounding of the double \<open>L\<close> that \<^verbatim>\<open>math.log(n, 2)\<close> computes: the result is a power
  of two whose binary logarithm is within one half of \<open>L\<close>, and hence within one half
  plus the error of \<open>L\<close> of the binary logarithm of \<open>n\<close>.
\<close>

theorem round_power_of_two_computed_log:
  assumes "0 < n"
  shows "\<exists>r e. round_power_of_two flog n = Inr r \<and> e = py_round (flog n 2) \<and>
           py_real r = 2 powr (of_int e) \<and>
           \<bar>log 2 (py_real r) - flog n 2\<bar> \<le> 1 / 2 \<and>
           \<bar>log 2 (py_real r) - log 2 n\<bar> \<le> 1 / 2 + \<bar>flog n 2 - log 2 n\<bar>"
proof -
  let ?e = "py_round (flog n 2)"
  have "round_power_of_two flog n = Inr (py_pow2 ?e)"
    using assms by (rule round_power_of_two_pos)
  moreover have "py_real (py_pow2 ?e) = 2 powr (of_int ?e)"
    by (rule py_real_pow2)
  moreover have near: "\<bar>log 2 (2 powr (of_int ?e)) - flog n 2\<bar> \<le> 1 / 2"
    using py_round_near [of "flog n 2"] by simp
  moreover have "\<bar>log 2 (2 powr (of_int ?e)) - log 2 n\<bar> \<le> 1 / 2 + \<bar>flog n 2 - log 2 n\<bar>"
    using near by linarith
  ultimately show ?thesis by simp
qed

theorem round_power_of_two_computed_log_witness:
  "0 < tie_input \<and>
   (\<exists>r e. round_power_of_two tie_log tie_input = Inr r \<and> e = py_round (tie_log tie_input 2) \<and>
      py_real r = 2 powr (of_int e) \<and>
      \<bar>log 2 (py_real r) - tie_log tie_input 2\<bar> \<le> 1 / 2 \<and>
      \<bar>log 2 (py_real r) - log 2 tie_input\<bar> \<le> 1 / 2 + \<bar>tie_log tie_input 2 - log 2 tie_input\<bar>) \<and>
   round_power_of_two tie_log tie_input = Inr (PyInt 4) \<and>
   round_power_of_two exact_log (361 / 3) = Inr (PyInt 128)"
  using tie_input_pos round_power_of_two_computed_log [OF tie_input_pos, of tie_log]
    round_power_of_two_tie round_power_of_two_19
  by blast





section \<open>Properties of the training objective\<close>

text \<open>\<^verbatim>\<open>p in s\<close> is the library's contiguous-sublist relation.\<close>

lemma py_in_sublist: "py_in p s \<longleftrightarrow> sublist p s"
  by (induction s) (auto simp: sublist_Cons_right)

lemma train_ops_l2_cost_eq:
  "train_ops_l2_cost hp tvars =
     1 / 10000 * (\<Sum>v\<leftarrow>filter (\<lambda>v. \<not> py_in ''bias'' (fst v)) tvars. (\<Sum>x\<leftarrow>snd v. x\<^sup>2) / 2)"
  by (simp add: train_ops_l2_cost_def add_n_def l2_loss_def comp_def)

lemma train_ops_l2_cost_const: "train_ops_l2_cost hp tvars = train_ops_l2_cost hp' tvars"
  by (simp add: train_ops_l2_cost_def)

text \<open>
  C1. The L2 term of \<^verbatim>\<open>train_ops\<close> at two hyperparameter sets that differ in
  \<open>l2_strength\<close> only: the code gives the same cost for both, where the
  specification's term doubles with \<open>l2_strength\<close>.
\<close>

theorem train_ops_l2_cost_ignores_l2_strength:
  "train_ops_l2_cost [''l2_strength'' \<mapsto> PyFloat (2 / 10000)] demo_vars = 1 / 10000 \<and>
   train_ops_l2_cost [''l2_strength'' \<mapsto> PyFloat (4 / 10000)] demo_vars = 1 / 10000 \<and>
   spec_l2_cost (2 / 10000) demo_vars = 4 / 10000 \<and>
   spec_l2_cost (4 / 10000) demo_vars = 8 / 10000"
  by (simp add: train_ops_l2_cost_def spec_l2_cost_def demo_vars_def add_n_def l2_loss_def)



section \<open>Properties of the statistics collector\<close>

lemma py_sum_sum_list: "py_sum xs = sum_list xs"
proof -
  have "foldl (+) a xs = a + sum_list xs" for a :: real
    by (induction xs arbitrary: a) simp_all
  then show ?thesis by (simp add: py_sum_def)
qed

lemma py_div_mean: "xs \<noteq> [] \<Longrightarrow> py_div (py_sum xs) (length xs) = Inr (mean xs)"
  by (simp add: py_div_def py_sum_sum_list mean_def)

lemma py_div_Nil: "py_div (py_sum []) (length ([]::real list)) = Inl ZeroDivisionError"
  by (simp add: py_div_def)

lemma py_div_error: "py_div a n = Inl e \<Longrightarrow> e = ZeroDivisionError \<and> n = 0"
  by (auto simp: py_div_def split: if_splits)

lemma reports_fields:
  "policy_costs (reports s rs) = policy_costs s @ map fst rs"
  "value_costs (reports s rs) = value_costs s @ map (fst \<circ> snd) rs"
  "regularization_costs (reports s rs) = regularization_costs s @ map (fst \<circ> snd \<circ> snd) rs"
  "combined_costs (reports s rs) = combined_costs s @ map (snd \<circ> snd \<circ> snd) rs"
  unfolding reports_def
  by (induction rs arbitrary: s; simp add: report_def split: prod.splits)+

lemma collect_nonempty:
  assumes "policy_costs s \<noteq> []" "value_costs s \<noteq> []"
    "regularization_costs s \<noteq> []" "combined_costs s \<noteq> []"
  shows "collect s =
    (Inr (accuracy_summaries (mean (policy_costs s)) (mean (value_costs s))
           (mean (regularization_costs s)) (mean (combined_costs s))),
     s\<lparr>policy_costs := [], value_costs := [],
             regularization_costs := [], combined_costs := []\<rparr>)"
  using assms by (simp add: collect_def py_div_mean)

lemma collect_error:
  "fst (collect s) = Inl e \<Longrightarrow> e = ZeroDivisionError \<and> snd (collect s) = s"
  by (auto simp: collect_def split: sum.splits dest: py_div_error)

lemma collect_fails_iff:
  "(\<exists>e. fst (collect s) = Inl e) \<longleftrightarrow>
     policy_costs s = [] \<or> value_costs s = [] \<or> regularization_costs s = [] \<or> combined_costs s = []"
  by (auto simp: collect_def py_div_def split: sum.splits if_splits)

lemma same_lengths_init: "same_lengths stats_init"
  by (simp add: same_lengths_def stats_init_def)

lemma same_lengths_report: "same_lengths s \<Longrightarrow> same_lengths (report s p v r c)"
  by (simp add: same_lengths_def report_def)

lemma same_lengths_collect: "same_lengths s \<Longrightarrow> same_lengths (snd (collect s))"
  by (auto simp: same_lengths_def collect_def split: sum.splits)

lemma same_lengths_step: "same_lengths s \<Longrightarrow> same_lengths (stats_step s x)"
  by (cases x) (simp_all add: same_lengths_report same_lengths_collect)

lemma same_lengths_foldl: "same_lengths s \<Longrightarrow> same_lengths (foldl stats_step s ops)"
  by (induction ops arbitrary: s) (simp_all add: same_lengths_step)

lemma stats_run_snoc: "stats_run (ops @ [x]) = stats_step (stats_run ops) x"
  by (simp add: stats_run_def)

lemma same_lengths_run: "same_lengths (stats_run ops)"
  unfolding stats_run_def by (rule same_lengths_foldl) (rule same_lengths_init)

lemma collect_post_empty: "same_lengths s \<Longrightarrow> policy_costs (snd (collect s)) = []"
  by (auto simp: collect_def py_div_def same_lengths_def split: sum.splits if_splits)

lemma stats_run_empty_iff:
  "policy_costs (stats_run ops) = [] \<longleftrightarrow> ops = [] \<or> last ops = Collect"
proof (cases ops rule: rev_cases)
  case Nil
  then show ?thesis by (simp add: stats_run_def stats_init_def)
next
  case (snoc ys y)
  show ?thesis
  proof (cases y)
    case (Report p v r c)
    with snoc show ?thesis by (simp add: stats_run_snoc report_def)
  next
    case Collect
    with snoc show ?thesis
      by (simp add: stats_run_snoc collect_post_empty same_lengths_run)
  qed
qed

lemma collect_success_init: "collect s = (Inr sm, s') \<Longrightarrow> s' = stats_init"
  by (auto simp: collect_def stats_init_def split: sum.splits)

text \<open>
  C4. After a non-empty run of \<^verbatim>\<open>report\<close> calls on a collector that was just
  constructed or just collected, \<^verbatim>\<open>collect\<close> returns the summary of the arithmetic
  means of the four reported sequences and leaves the four lists empty.
\<close>

theorem collect_returns_means:
  assumes "s0 = stats_init \<or> (\<exists>s sm. collect s = (Inr sm, s0))" and "rs \<noteq> []"
  shows "collect (reports s0 rs) =
      (Inr (accuracy_summaries (mean (map fst rs)) (mean (map (fst \<circ> snd) rs))
              (mean (map (fst \<circ> snd \<circ> snd) rs)) (mean (map (snd \<circ> snd \<circ> snd) rs))),
       \<lparr>policy_costs = [], value_costs = [], regularization_costs = [], combined_costs = []\<rparr>)"
proof -
  from assms(1) have s0: "s0 = stats_init"
    by (auto dest: collect_success_init)
  show ?thesis
    using assms(2)
    by (subst collect_nonempty) (simp_all add: reports_fields s0 stats_init_def)
qed

text \<open>The scenario: one report of (0.5, 0.3, 0.01, 0.81), then \<^verbatim>\<open>collect\<close>.\<close>

theorem collect_returns_means_witness:
  "collect (report stats_init (5 / 10) (3 / 10) (1 / 100) (81 / 100)) =
      (Inr [(''Policy error'', 5 / 10), (''Value error'', 3 / 10),
            (''Regularization error'', 1 / 100), (''Combined cost'', 81 / 100)],
       \<lparr>policy_costs = [], value_costs = [], regularization_costs = [], combined_costs = []\<rparr>)"
  using collect_returns_means [of stats_init "[(5 / 10, 3 / 10, 1 / 100, 81 / 100)]"]
  by (simp add: reports_def mean_def accuracy_summaries_def)

text \<open>
  C5. After any history of calls, \<^verbatim>\<open>collect\<close> raises ZeroDivisionError exactly when
  no \<^verbatim>\<open>report\<close> has come since the last \<^verbatim>\<open>collect\<close> (or since construction), and
  it raises no other error.
\<close>

theorem collect_division_by_zero:
  "(fst (collect (stats_run ops)) = Inl ZeroDivisionError \<longleftrightarrow> ops = [] \<or> last ops = Collect) \<and>
   (\<forall>e. fst (collect (stats_run ops)) = Inl e \<longrightarrow> e = ZeroDivisionError)"
proof -
  have sl: "same_lengths (stats_run ops)" by (rule same_lengths_run)
  have "(\<exists>e. fst (collect (stats_run ops)) = Inl e) \<longleftrightarrow> policy_costs (stats_run ops) = []"
    using sl unfolding collect_fails_iff same_lengths_def by (metis length_0_conv)
  moreover have "\<forall>e. fst (collect (stats_run ops)) = Inl e \<longrightarrow> e = ZeroDivisionError"
    by (auto dest: collect_error)
  ultimately show ?thesis
    unfolding stats_run_empty_iff [symmetric] by blast
qed

theorem collect_division_by_zero_witness:
  "fst (collect (stats_run [])) = Inl ZeroDivisionError \<and>
   fst (collect (stats_run [Report 1 2 3 6, Collect])) = Inl ZeroDivisionError \<and>
   fst (collect (stats_run [Collect, Report 1 2 3 6])) \<noteq> Inl ZeroDivisionError"
  using collect_division_by_zero [of "[]"]
    collect_division_by_zero [of "[Report 1 2 3 6, Collect]"]
    collect_division_by_zero [of "[Collect, Report 1 2 3 6]"]
  by simp

text \<open>
  C9. The four lists of a collector always have the same length: they start empty,
  \<^verbatim>\<open>report\<close> appends exactly one element to each, and a successful \<^verbatim>\<open>collect\<close>
  empties all four.
\<close>

theorem stats_lists_same_length:
  "same_lengths (stats_run ops) \<and>
   (policy_costs stats_init = [] \<and> value_costs stats_init = [] \<and>
    regularization_costs stats_init = [] \<and> combined_costs stats_init = []) \<and>
   (policy_costs (report s p v r c) = policy_costs s @ [p] \<and>
    value_costs (report s p v r c) = value_costs s @ [v] \<and>
    regularization_costs (report s p v r c) = regularization_costs s @ [r] \<and>
    combined_costs (report s p v r c) = combined_costs s @ [c]) \<and>
   (\<forall>sm s'. collect s = (Inr sm, s') \<longrightarrow>
      policy_costs s' = [] \<and> value_costs s' = [] \<and>
      regularization_costs s' = [] \<and> combined_costs s' = [])"
proof -
  have "\<forall>sm s'. collect s = (Inr sm, s') \<longrightarrow>
      policy_costs s' = [] \<and> value_costs s' = [] \<and>
      regularization_costs s' = [] \<and> combined_costs s' = []"
    by (auto dest!: collect_success_init simp: stats_init_def)
  then show ?thesis
    by (simp add: same_lengths_run stats_init_def report_def)
qed

theorem stats_lists_same_length_witness:
  "same_lengths (stats_run [Report 1 2 3 6, Report 2 2 2 6, Collect, Collect, Report 0 0 0 0]) \<and>
   collect (report stats_init 1 2 3 6) = (Inr (accuracy_summaries 1 2 3 6), stats_init) \<and>
   policy_costs stats_init = []"
proof -
  have c: "collect (report stats_init 1 2 3 6) = (Inr (accuracy_summaries 1 2 3 6), stats_init)"
    by (simp add: collect_def report_def stats_init_def py_div_def py_sum_def)
  show ?thesis
    using stats_lists_same_length
      [of "[Report 1 2 3 6, Report 2 2 2 6, Collect, Collect, Report 0 0 0 0]"
          "report stats_init 1 2 3 6" 0 0 0 0] c
    by simp
qed


section \<open>Properties of the trainer\<close>

lemma collect_report_succeeds: "\<exists>sm s'. collect (report s p v r c) = (Inr sm, s')"
  by (subst collect_nonempty) (simp_all add: report_def)

subsection \<open>Frame lemmas for the primitives\<close>

lemma add_node_frame [simp]:
  "sessions (add_node n w) = sessions w"
  "files (add_node n w) = files w"
  "default_stack (add_node n w) = default_stack w"
  "events (add_node n w) = events w"
  "length (graphs (add_node n w)) = length (graphs w)"
  "get_default_graph (add_node n w) = get_default_graph w"
  by (simp_all add: add_node_def Let_def get_default_graph_def)

lemma add_node_other: "g \<noteq> get_default_graph w \<Longrightarrow> graphs (add_node n w) ! g = graphs w ! g"
  by (simp add: add_node_def Let_def)

lemma add_node_default:
  "get_default_graph w < length (graphs w) \<Longrightarrow>
     graphs (add_node n w) ! get_default_graph w = graphs w ! get_default_graph w @ [n]"
  by (simp add: add_node_def Let_def)

lemma set_vars_frame [simp]:
  "graphs (set_vars s v w) = graphs w"
  "files (set_vars s v w) = files w"
  "default_stack (set_vars s v w) = default_stack w"
  "events (set_vars s v w) = events w"
  "length (sessions (set_vars s v w)) = length (sessions w)"
  "get_default_graph (set_vars s v w) = get_default_graph w"
  by (simp_all add: set_vars_def get_default_graph_def)

lemma set_vars_same:
  "s < length (sessions w) \<Longrightarrow>
     sess_vars (sessions (set_vars s v w) ! s) = Some v \<and>
     sess_graph (sessions (set_vars s v w) ! s) = sess_graph (sessions w ! s)"
  by (simp add: set_vars_def)

lemma set_vars_other: "s' \<noteq> s \<Longrightarrow> sessions (set_vars s v w) ! s' = sessions w ! s'"
  by (simp add: set_vars_def)

lemma as_default_enter_frame [simp]:
  "graphs (as_default_enter g w) = graphs w"
  "sessions (as_default_enter g w) = sessions w"
  "files (as_default_enter g w) = files w"
  "events (as_default_enter g w) = events w"
  "get_default_graph (as_default_enter g w) = g"
  "default_stack (as_default_enter g w) = g # default_stack w"
  by (simp_all add: as_default_enter_def get_default_graph_def)

lemma as_default_exit_frame [simp]:
  "graphs (as_default_exit w) = graphs w"
  "sessions (as_default_exit w) = sessions w"
  "files (as_default_exit w) = files w"
  "events (as_default_exit w) = events w"
  "default_stack (as_default_exit w) = tl (default_stack w)"
  by (simp_all add: as_default_exit_def)

lemma print_stderr_frame [simp]:
  "graphs (print_stderr l w) = graphs w"
  "sessions (print_stderr l w) = sessions w"
  "files (print_stderr l w) = files w"
  "events (print_stderr l w) = events w"
  "default_stack (print_stderr l w) = default_stack w"
  "get_default_graph (print_stderr l w) = get_default_graph w"
  by (simp_all add: print_stderr_def get_default_graph_def)

lemma FileWriter_frame [simp]:
  "graphs (FileWriter d g w) = graphs w"
  "sessions (FileWriter d g w) = sessions w"
  "files (FileWriter d g w) = files w"
  "default_stack (FileWriter d g w) = default_stack w"
  by (simp_all add: FileWriter_def)

subsection \<open>One training step\<close>

lemma run_train_tensors_Nil:
  "sess_vars (sessions w ! s) = Some v \<Longrightarrow> run_train_tensors optimise hp s [] w = Inl OutOfRangeError"
  by (simp add: run_train_tensors_def)

lemma run_train_tensors_Cons:
  assumes "sess_vars (sessions w ! s) = Some v"
  shows "\<exists>tv. run_train_tensors optimise hp s (b # rest) w =
           Inr (tv, rest, set_vars s \<lparr>weights = fst (optimise (weights v) b),
                                       step_counter = step_counter v + 1\<rparr> w)"
  using assms by (simp add: run_train_tensors_def Let_def split: prod.splits)

lemma log_step_succeeds:
  assumes "sess_vars (sessions (wld st) ! sess tr) = Some v"
  shows "\<exists>st'. log_step tr i tv st = Inr st' \<and> src st' = src st \<and> same_tf (wld st) (wld st')"
proof (cases "logging st")
  case None
  then show ?thesis by (simp add: log_step_def same_tf_def)
next
  case (Some a)
  obtain logdir ts where a: "a = (logdir, ts)" by (cases a)
  obtain sm s' where c: "collect (report ts (policy_cost tv) (value_cost tv) (l2_cost tv) (combined_cost tv)) = (Inr sm, s')"
    using collect_report_succeeds by blast
  show ?thesis
    using Some a c assms by (simp add: log_step_def Let_def same_tf_def)
qed

lemma train_loop_runs:
  assumes "sess tr < length (sessions (wld st))"
    and "sess_vars (sessions (wld st) ! sess tr) = Some v"
  shows "\<exists>st' v'. train_loop optimise tr is st = Inr st' \<and>
           sess_vars (sessions (wld st') ! sess tr) = Some v' \<and>
           step_counter v' = step_counter v + min (length is) (length (src st)) \<and>
           weights v' = sgd optimise (weights v) (take (length is) (src st)) \<and>
           src st' = drop (length is) (src st) \<and>
           length (sessions (wld st')) = length (sessions (wld st)) \<and>
           sess_graph (sessions (wld st') ! sess tr) = sess_graph (sessions (wld st) ! sess tr) \<and>
           (\<forall>s. s \<noteq> sess tr \<longrightarrow> sessions (wld st') ! s = sessions (wld st) ! s) \<and>
           graphs (wld st') = graphs (wld st) \<and>
           files (wld st') = files (wld st) \<and>
           default_stack (wld st') = default_stack (wld st)"
  using assms
proof (induction "is" arbitrary: st v)
  case Nil
  then show ?case by (simp add: sgd_def)
next
  case (Cons i rest)
  show ?case
  proof (cases "src st")
    case Nil
    with Cons.prems show ?thesis
      by (simp add: run_train_tensors_Nil sgd_def)
  next
    case (Cons b bs)
    let ?v1 = "\<lparr>weights = fst (optimise (weights v) b), step_counter = step_counter v + 1\<rparr>"
    let ?w1 = "set_vars (sess tr) ?v1 (wld st)"
    obtain tv where run: "run_train_tensors optimise (hparams tr) (sess tr) (src st) (wld st) =
        Inr (tv, bs, ?w1)"
      using run_train_tensors_Cons [OF Cons.prems(2), of optimise "hparams tr" b bs] Cons by auto
    have v1: "sess_vars (sessions ?w1 ! sess tr) = Some ?v1"
      and g1: "sess_graph (sessions ?w1 ! sess tr) = sess_graph (sessions (wld st) ! sess tr)"
      using set_vars_same [OF Cons.prems(1)] by simp_all
    obtain st1 where log: "log_step tr i tv (st\<lparr>wld := ?w1, src := bs\<rparr>) = Inr st1"
      and src1: "src st1 = bs" and tf1: "same_tf ?w1 (wld st1)"
      using log_step_succeeds [of "st\<lparr>wld := ?w1, src := bs\<rparr>" tr ?v1 i tv] v1 by auto
    have len1: "sess tr < length (sessions (wld st1))"
      using tf1 Cons.prems(1) by (simp add: same_tf_def)
    have vs1: "sess_vars (sessions (wld st1) ! sess tr) = Some ?v1"
      using tf1 v1 by (simp add: same_tf_def)
    from Cons.IH [OF len1 vs1] obtain st' v' where
      IH: "train_loop optimise tr rest st1 = Inr st'"
        "sess_vars (sessions (wld st') ! sess tr) = Some v'"
        "step_counter v' = step_counter ?v1 + min (length rest) (length (src st1))"
        "weights v' = sgd optimise (weights ?v1) (take (length rest) (src st1))"
        "src st' = drop (length rest) (src st1)"
        "length (sessions (wld st')) = length (sessions (wld st1))"
        "sess_graph (sessions (wld st') ! sess tr) = sess_graph (sessions (wld st1) ! sess tr)"
        "\<forall>s. s \<noteq> sess tr \<longrightarrow> sessions (wld st') ! s = sessions (wld st1) ! s"
        "graphs (wld st') = graphs (wld st1)"
        "files (wld st') = files (wld st1)"
        "default_stack (wld st') = default_stack (wld st1)"
      by blast
    have "train_loop optimise tr (i # rest) st = Inr st'"
      using run log IH(1) by simp
    moreover have "step_counter v' = step_counter v + min (length (i # rest)) (length (src st))"
      using IH(3) src1 Cons by simp
    moreover have "weights v' = sgd optimise (weights v) (take (length (i # rest)) (src st))"
      using IH(4) src1 Cons by (simp add: sgd_def)
    moreover have "src st' = drop (length (i # rest)) (src st)"
      using IH(5) src1 Cons by simp
    moreover have "length (sessions (wld st')) = length (sessions (wld st))"
      using IH(6) tf1 by (simp add: same_tf_def)
    moreover have "sess_graph (sessions (wld st') ! sess tr) = sess_graph (sessions (wld st) ! sess tr)"
      using IH(7) tf1 g1 by (simp add: same_tf_def)
    moreover have "\<forall>s. s \<noteq> sess tr \<longrightarrow> sessions (wld st') ! s = sessions (wld st) ! s"
      using IH(8) tf1 by (simp add: same_tf_def set_vars_other)
    moreover have "graphs (wld st') = graphs (wld st)" "files (wld st') = files (wld st)"
      "default_stack (wld st') = default_stack (wld st)"
      using IH(9,10,11) tf1 by (simp_all add: same_tf_def)
    ultimately show ?thesis using IH(2) by blast
  qed
qed

subsection \<open>Savers and initialisers\<close>

lemma has_variables_append:
  "has_variables (ns @ [n]) \<longleftrightarrow> has_variables ns \<or> creates_variables n"
  by (auto simp: has_variables_def)

lemma add_node_has_variables:
  "has_variables (graphs (add_node n w) ! g)" if "has_variables (graphs w ! g)"
proof (cases "g = get_default_graph w \<and> g < length (graphs w)")
  case True
  then have "graphs (add_node n w) ! g = graphs w ! g @ [n]"
    by (simp add: add_node_def Let_def)
  then show ?thesis
    using that by (simp add: has_variables_append)
next
  case False
  then have "graphs (add_node n w) ! g = graphs w ! g"
    by (cases "get_default_graph w < length (graphs w)")
       (auto simp: add_node_def Let_def list_update_beyond)
  then show ?thesis
    using that by simp
qed

lemma keeps_session_refl: "keeps_session s w w"
  by (simp add: keeps_session_def)

lemma keeps_session_trans:
  "keeps_session s w w1 \<Longrightarrow> keeps_session s w1 w2 \<Longrightarrow> keeps_session s w w2"
  by (simp add: keeps_session_def)

lemma keeps_session_add_node: "keeps_session s w (add_node n w)"
  by (simp add: keeps_session_def add_node_has_variables)

lemma keeps_session_set_vars: "s < length (sessions w) \<Longrightarrow> keeps_session s w (set_vars s v w)"
  by (simp add: keeps_session_def set_vars_same)

lemma keeps_session_print_stderr: "keeps_session s w (print_stderr l w)"
  by (simp add: keeps_session_def)

lemma keeps_session_same_tf: "same_tf w w' \<Longrightarrow> keeps_session s w w'"
  by (simp add: keeps_session_def same_tf_def)

lemma tf_train_Saver_ok:
  "has_variables (graphs w ! get_default_graph w) \<Longrightarrow> tf_train_Saver w = Inr (add_node Saver w)"
  by (simp add: tf_train_Saver_def)

lemma tf_train_Saver_Inr: "tf_train_Saver w = Inr w' \<Longrightarrow> w' = add_node Saver w"
  by (simp add: tf_train_Saver_def split: if_splits)

lemma Saver_save_frame:
  assumes "Saver_save s (Some f) w = Inr w'"
  shows "sessions w' = sessions w" "default_stack w' = default_stack w" "events w' = events w"
    "graphs w' = graphs (add_node Saver w)"
  using assms
  by (auto simp: Saver_save_def dest!: tf_train_Saver_Inr split: sum.splits if_splits option.splits)

lemma Saver_save_writes:
  assumes "sess_vars (sessions w ! s) = Some v"
    and "has_variables (graphs w ! get_default_graph w)"
    and "sess_graph (sessions w ! s) = get_default_graph w"
  shows "\<exists>w'. Saver_save s (Some f) w = Inr w' \<and> files w' (data_path f) = Some (DataFile v) \<and>
           files w' (f @ ''.meta'') \<noteq> None"
  using assms by (simp add: Saver_save_def tf_train_Saver_ok data_path_def)

lemma save_weights_writes:
  assumes "save_file tr = Some f" and "sess_vars (sessions w ! sess tr) = Some v"
    and "has_variables (graphs w ! sess_graph (sessions w ! sess tr))"
  shows "\<exists>w'. save_weights tr w = Inr w' \<and> files w' (data_path f) = Some (DataFile v) \<and>
           os_path_exists w' (f @ ''.meta'') \<and>
           sessions w' = sessions w \<and> default_stack w' = default_stack w"
proof -
  let ?w = "as_default_enter (sess_graph (sessions w ! sess tr)) w"
  have "sess_vars (sessions ?w ! sess tr) = Some v"
    "has_variables (graphs ?w ! get_default_graph ?w)"
    "sess_graph (sessions ?w ! sess tr) = get_default_graph ?w"
    using assms(2,3) by simp_all
  from Saver_save_writes [OF this, of f] obtain w1 where
    s: "Saver_save (sess tr) (Some f) ?w = Inr w1" and
    f: "files w1 (data_path f) = Some (DataFile v)" "files w1 (f @ ''.meta'') \<noteq> None"
    by blast
  from Saver_save_frame(1,2) [OF s] have "sessions w1 = sessions w"
    "default_stack w1 = sess_graph (sessions w ! sess tr) # default_stack w" by simp_all
  with s f assms(1) show ?thesis
    by (simp add: save_weights_def os_path_exists_def)
qed

lemma Saver_restore_Inr:
  assumes "Saver_restore s p w = Inr w'"
  shows "\<exists>v. files w (data_path p) = Some (DataFile v) \<and> w' = set_vars s v (add_node Saver w)"
  using assms
  by (auto simp: Saver_restore_def dest!: tf_train_Saver_Inr
      split: sum.splits if_splits option.splits disk_file.splits)

lemma Saver_restore_initialises:
  assumes "Saver_restore s p w = Inr w'" and "s < length (sessions w)"
  shows "\<exists>v. files w (data_path p) = Some (DataFile v) \<and> sess_vars (sessions w' ! s) = Some v \<and>
           keeps_session s w w'"
proof -
  from Saver_restore_Inr [OF assms(1)] obtain v where
    v: "files w (data_path p) = Some (DataFile v)" and w': "w' = set_vars s v (add_node Saver w)"
    by blast
  have "keeps_session s (add_node Saver w) w'"
    unfolding w' using assms(2) by (intro keeps_session_set_vars) simp
  then have "keeps_session s w w'"
    by (rule keeps_session_trans [OF keeps_session_add_node])
  moreover have "sess_vars (sessions w' ! s) = Some v"
    unfolding w' using assms(2) by (simp add: set_vars_same)
  ultimately show ?thesis using v by blast
qed

lemma Saver_restore_succeeds:
  assumes "has_variables (graphs w ! get_default_graph w)"
    and "sess_graph (sessions w ! s) = get_default_graph w"
    and "files w (data_path p) = Some (DataFile v)"
    and "s < length (sessions w)"
  shows "\<exists>w'. Saver_restore s p w = Inr w' \<and> sess_vars (sessions w' ! s) = Some v"
  using assms by (simp add: Saver_restore_def tf_train_Saver_ok set_vars_same)

lemma run_global_variables_initializer_Inr:
  assumes "run_global_variables_initializer s rnd w = Inr w'"
  shows "\<exists>v. w' = set_vars s v (add_node GlobalInit w)"
  using assms
  by (auto simp: run_global_variables_initializer_def Let_def split: if_splits)

lemma run_global_variables_initializer_initialises:
  assumes "run_global_variables_initializer s rnd w = Inr w'" and "s < length (sessions w)"
  shows "\<exists>v. sess_vars (sessions w' ! s) = Some v \<and> keeps_session s w w'"
proof -
  from run_global_variables_initializer_Inr [OF assms(1)] obtain v where
    w': "w' = set_vars s v (add_node GlobalInit w)"
    by blast
  have "keeps_session s (add_node GlobalInit w) w'"
    unfolding w' using assms(2) by (intro keeps_session_set_vars) simp
  then have "keeps_session s w w'"
    by (rule keeps_session_trans [OF keeps_session_add_node])
  moreover have "sess_vars (sessions w' ! s) = Some v"
    unfolding w' using assms(2) by (simp add: set_vars_same)
  ultimately show ?thesis by blast
qed

lemma run_global_variables_initializer_succeeds:
  assumes "has_variables (graphs w ! get_default_graph w)"
    and "sess_graph (sessions w ! s) = get_default_graph w"
    and "s < length (sessions w)"
  shows "\<exists>w'. run_global_variables_initializer s rnd w = Inr w' \<and>
           sess_vars (sessions w' ! s) = Some \<lparr>weights = rnd, step_counter = 0\<rparr>"
  using assms
  by (simp add: run_global_variables_initializer_def Let_def add_node_has_variables set_vars_same)

lemma initialize_weights_own:
  "save_file tr = Some f \<Longrightarrow> os_path_exists w (f @ ''.meta'') \<Longrightarrow>
     initialize_weights tr init_from rnd w = Saver_restore (sess tr) f w"
  by (simp add: initialize_weights_def)

lemma initialize_weights_init_from:
  "\<not> (\<exists>f. save_file tr = Some f \<and> os_path_exists w (f @ ''.meta'')) \<Longrightarrow>
     initialize_weights tr (Some p) rnd w =
       Saver_restore (sess tr) p (print_stderr (''Initializing from '' @ p) w)"
  by (auto simp: initialize_weights_def)

lemma initialize_weights_random:
  "\<not> (\<exists>f. save_file tr = Some f \<and> os_path_exists w (f @ ''.meta'')) \<Longrightarrow>
     initialize_weights tr None rnd w =
       run_global_variables_initializer (sess tr) rnd
         (print_stderr ''Bootstrapping with random weights'' w)"
  by (auto simp: initialize_weights_def)

lemma initialize_weights_initialises:
  assumes "initialize_weights tr init_from rnd w = Inr w'" and "sess tr < length (sessions w)"
  shows "\<exists>v. sess_vars (sessions w' ! sess tr) = Some v \<and> keeps_session (sess tr) w w'"
proof (cases "\<exists>f. save_file tr = Some f \<and> os_path_exists w (f @ ''.meta'')")
  case True
  then obtain f where "save_file tr = Some f" "os_path_exists w (f @ ''.meta'')" by blast
  with assms(1) have "Saver_restore (sess tr) f w = Inr w'"
    by (simp add: initialize_weights_own)
  from Saver_restore_initialises [OF this assms(2)] show ?thesis by auto
next
  case False
  show ?thesis
  proof (cases init_from)
    case None
    let ?w = "print_stderr ''Bootstrapping with random weights'' w"
    from None False assms(1) have "run_global_variables_initializer (sess tr) rnd ?w = Inr w'"
      by (simp add: initialize_weights_random)
    from run_global_variables_initializer_initialises [OF this] assms(2)
    obtain v where "sess_vars (sessions w' ! sess tr) = Some v" "keeps_session (sess tr) ?w w'"
      by auto
    with keeps_session_trans [OF keeps_session_print_stderr] show ?thesis by blast
  next
    case (Some p)
    let ?w = "print_stderr (''Initializing from '' @ p) w"
    from Some False assms(1) have "Saver_restore (sess tr) p ?w = Inr w'"
      by (simp add: initialize_weights_init_from)
    from Saver_restore_initialises [OF this] assms(2)
    obtain v where "sess_vars (sessions w' ! sess tr) = Some v" "keeps_session (sess tr) ?w w'"
      by auto
    with keeps_session_trans [OF keeps_session_print_stderr] show ?thesis by blast
  qed
qed

lemma train_graph_files [simp]: "files (train_graph tr w) = files w"
  by (simp add: train_graph_def)

lemma train_graph_sessions [simp]: "sessions (train_graph tr w) = sessions w"
  by (simp add: train_graph_def)

lemma train_graph_default [simp]:
  "get_default_graph (train_graph tr w) = sess_graph (sessions w ! sess tr)"
  by (simp add: train_graph_def)

lemma train_graph_has_variables:
  assumes "sess_graph (sessions w ! sess tr) < length (graphs w)"
  shows "has_variables (graphs (train_graph tr w) ! sess_graph (sessions w ! sess tr))"
proof -
  let ?g = "sess_graph (sessions w ! sess tr)"
  let ?w1 = "add_node (InputTensors TRAIN_BATCH_SIZE) (as_default_enter ?g w)"
  have "get_default_graph ?w1 = ?g" "?g < length (graphs ?w1)"
    using assms by simp_all
  then have "has_variables (graphs (add_node (DualNet TRAIN_BATCH_SIZE True (hparams tr)) ?w1) ! ?g)"
    using add_node_default [of ?w1 "DualNet TRAIN_BATCH_SIZE True (hparams tr)"]
    by (simp add: has_variables_append)
  then show ?thesis
    unfolding train_graph_def
    by (rule add_node_has_variables [OF add_node_has_variables])
qed

text \<open>
  C2. Whenever the trainer has a save location and the initialisation of the weights
  succeeds, \<^verbatim>\<open>train\<close> returns normally for every \<open>num_steps\<close> and every example
  source: the loop runs as many steps as \<open>num_steps\<close> asks for or as the source has
  batches, whichever is less, so it stops at the step where exhaustion is signalled,
  and the final checkpoint with the weights of that moment is written to the save
  location on the early and on the normal path alike. The trainer's session and its
  graph are objects of the store.
\<close>

theorem train_always_checkpoints:
  assumes sf: "save_file tr = Some f"
    and len: "sess tr < length (sessions w)"
    and glen: "sess_graph (sessions w ! sess tr) < length (graphs w)"
    and init: "initialize_weights tr init_from rnd (train_graph tr w) = Inr w0"
  shows "\<exists>w' v0 v'. train optimise tr tf_records init_from logdir num_steps rnd w = Inr w' \<and>
           sess_vars (sessions w0 ! sess tr) = Some v0 \<and>
           sess_vars (sessions w' ! sess tr) = Some v' \<and>
           step_counter v' = step_counter v0 + min (steps_requested num_steps) (length tf_records) \<and>
           weights v' = sgd optimise (weights v0) (take (steps_requested num_steps) tf_records) \<and>
           files w' (data_path f) = Some (DataFile v') \<and>
           os_path_exists w' (f @ ''.meta'')"
proof -
  let ?g = "sess_graph (sessions w ! sess tr)"
  from initialize_weights_initialises [OF init] len obtain v0 where
    v0: "sess_vars (sessions w0 ! sess tr) = Some v0" and
    keep: "keeps_session (sess tr) (train_graph tr w) w0"
    by auto
  from keep len have len0: "sess tr < length (sessions w0)"
    and g0: "sess_graph (sessions w0 ! sess tr) = ?g"
    by (simp_all add: keeps_session_def)
  from keep train_graph_has_variables [OF glen] have hv0: "has_variables (graphs w0 ! ?g)"
    by (simp add: keeps_session_def)
  define st where "st = (case logdir of
                          None \<Rightarrow> \<lparr>wld = w0, logging = None, src = tf_records\<rparr>
                        | Some d \<Rightarrow>
                            \<lparr>wld = FileWriter d (sess_graph (sessions w0 ! sess tr)) w0,
                             logging = Some (d, stats_init), src = tf_records\<rparr>)"
  have st: "sessions (wld st) = sessions w0" "src st = tf_records" "graphs (wld st) = graphs w0"
    by (simp_all add: st_def split: option.splits)
  have "sess tr < length (sessions (wld st))" "sess_vars (sessions (wld st) ! sess tr) = Some v0"
    using v0 len0 st by simp_all
  from train_loop_runs [OF this, of optimise "[0..<steps_requested num_steps]"]
  obtain st' v' where
    loop: "train_loop optimise tr [0..<steps_requested num_steps] st = Inr st'" and
    v': "sess_vars (sessions (wld st') ! sess tr) = Some v'" and
    cnt: "step_counter v' = step_counter v0 + min (steps_requested num_steps) (length tf_records)" and
    ws: "weights v' = sgd optimise (weights v0) (take (steps_requested num_steps) tf_records)" and
    g': "sess_graph (sessions (wld st') ! sess tr) = sess_graph (sessions (wld st) ! sess tr)" and
    gr': "graphs (wld st') = graphs (wld st)"
    using st by auto
  have "has_variables (graphs (wld st') ! sess_graph (sessions (wld st') ! sess tr))"
    using hv0 g0 g' gr' st by simp
  from save_weights_writes [OF sf v' this] obtain w2 where
    save: "save_weights tr (wld st') = Inr w2" and
    f: "files w2 (data_path f) = Some (DataFile v')" "os_path_exists w2 (f @ ''.meta'')" and
    s2: "sessions w2 = sessions (wld st')"
    by blast
  have "train optimise tr tf_records init_from logdir num_steps rnd w = Inr (as_default_exit w2)"
    using init loop save
    by (simp add: train_def Let_def st_def steps_requested_def)
  moreover have "sess_vars (sessions (as_default_exit w2) ! sess tr) = Some v'"
    using v' s2 by simp
  moreover have "files (as_default_exit w2) (data_path f) = Some (DataFile v')"
    "os_path_exists (as_default_exit w2) (f @ ''.meta'')"
    using f by (simp_all add: os_path_exists_def)
  ultimately show ?thesis using v0 cnt ws by blast
qed

text \<open>
  The scenario: \<open>num_steps = 10\<close> against a source of three batches, with logging on.
\<close>

lemma demo_init:
  "\<exists>w0. initialize_weights demo_trainer None [(''conv2d/kernel'', [0])]
            (train_graph demo_trainer demo_world) = Inr w0 \<and>
      sess_vars (sessions w0 ! 0) =
        Some \<lparr>weights = [(''conv2d/kernel'', [0])], step_counter = 0\<rparr>"
proof -
  let ?w = "train_graph demo_trainer demo_world"
  let ?p = "print_stderr ''Bootstrapping with random weights'' ?w"
  have g: "sess_graph (sessions demo_world ! sess demo_trainer) < length (graphs demo_world)"
    by (simp add: demo_trainer_def demo_world_def)
  have "\<not> (\<exists>f. save_file demo_trainer = Some f \<and> os_path_exists ?w (f @ ''.meta''))"
    by (simp add: os_path_exists_def demo_world_def)
  then have "initialize_weights demo_trainer None [(''conv2d/kernel'', [0])] ?w =
      run_global_variables_initializer (sess demo_trainer) [(''conv2d/kernel'', [0])] ?p"
    by (rule initialize_weights_random)
  moreover have "has_variables (graphs ?p ! get_default_graph ?p)"
    using train_graph_has_variables [OF g] by simp
  moreover have "sess_graph (sessions ?p ! sess demo_trainer) = get_default_graph ?p"
    "sess demo_trainer < length (sessions ?p)"
    by (simp_all add: demo_trainer_def demo_world_def)
  ultimately show ?thesis
    using run_global_variables_initializer_succeeds
      [of ?p "sess demo_trainer" "[(''conv2d/kernel'', [0])]"]
    by (simp add: demo_trainer_def)
qed

theorem train_always_checkpoints_witness:
  "\<exists>w'. train demo_optimise demo_trainer [1, 2, 3] None (Some ''logs'') (Some 10)
            [(''conv2d/kernel'', [0])] demo_world = Inr w' \<and>
      files w' (data_path ''m'') =
        Some (DataFile \<lparr>weights = [(''conv2d/kernel'', [6])], step_counter = 3\<rparr>) \<and>
      os_path_exists w' ''m.meta''"
proof -
  obtain w0 where
    i: "initialize_weights demo_trainer None [(''conv2d/kernel'', [0])]
          (train_graph demo_trainer demo_world) = Inr w0"
    and v: "sess_vars (sessions w0 ! 0) =
          Some \<lparr>weights = [(''conv2d/kernel'', [0])], step_counter = 0\<rparr>"
    using demo_init by blast
  have sf: "save_file demo_trainer = Some ''m''" by (simp add: demo_trainer_def)
  have len: "sess demo_trainer < length (sessions demo_world)"
    by (simp add: demo_trainer_def demo_world_def)
  have glen: "sess_graph (sessions demo_world ! sess demo_trainer) < length (graphs demo_world)"
    by (simp add: demo_trainer_def demo_world_def)
  from train_always_checkpoints
    [OF sf len glen i, of demo_optimise "[1, 2, 3]" "Some ''logs''" "Some 10"] v
  show ?thesis
    by (auto simp: demo_trainer_def steps_requested_def sgd_def demo_optimise_def)
qed

text \<open>
  C3. \<^verbatim>\<open>initialize_weights\<close> follows a strict precedence. If the trainer has a save
  location whose metadata marker exists, it restores from there, whatever \<open>init_from\<close>
  is; otherwise it restores from \<open>init_from\<close> when that is given, and initialises
  randomly when not. Where the trainer's graph is built and is the default graph, as in
  \<^verbatim>\<open>train\<close>, the session ends with the values of the checkpoint at the save location
  in the first case, with those of the checkpoint at \<open>init_from\<close> in the second, and
  with the random values and step counter 0 in the third.
\<close>

theorem initialize_weights_precedence:
  "(save_file tr = Some f \<and> os_path_exists w (f @ ''.meta'') \<longrightarrow>
      initialize_weights tr init_from rnd w = Saver_restore (sess tr) f w) \<and>
   (\<not> (\<exists>f. save_file tr = Some f \<and> os_path_exists w (f @ ''.meta'')) \<longrightarrow>
      (case init_from of
         Some p \<Rightarrow>
           initialize_weights tr init_from rnd w =
             Saver_restore (sess tr) p (print_stderr (''Initializing from '' @ p) w)
       | None \<Rightarrow>
           initialize_weights tr init_from rnd w =
             run_global_variables_initializer (sess tr) rnd
               (print_stderr ''Bootstrapping with random weights'' w))) \<and>
   (sess tr < length (sessions w) \<and>
    sess_graph (sessions w ! sess tr) = get_default_graph w \<and>
    has_variables (graphs w ! get_default_graph w) \<longrightarrow>
      (save_file tr = Some f \<and> os_path_exists w (f @ ''.meta'') \<and>
       files w (data_path f) = Some (DataFile v) \<longrightarrow>
         (\<exists>w'. initialize_weights tr init_from rnd w = Inr w' \<and>
                sess_vars (sessions w' ! sess tr) = Some v)) \<and>
      (\<not> (\<exists>f. save_file tr = Some f \<and> os_path_exists w (f @ ''.meta'')) \<and>
       init_from = Some p \<and> files w (data_path p) = Some (DataFile v) \<longrightarrow>
         (\<exists>w'. initialize_weights tr init_from rnd w = Inr w' \<and>
                sess_vars (sessions w' ! sess tr) = Some v)) \<and>
      (\<not> (\<exists>f. save_file tr = Some f \<and> os_path_exists w (f @ ''.meta'')) \<and>
       init_from = None \<longrightarrow>
         (\<exists>w'. initialize_weights tr init_from rnd w = Inr w' \<and>
                sess_vars (sessions w' ! sess tr) =
                  Some \<lparr>weights = rnd, step_counter = 0\<rparr>)))"
proof -
  have a: "initialize_weights tr init_from rnd w = Saver_restore (sess tr) f w"
    if "save_file tr = Some f \<and> os_path_exists w (f @ ''.meta'')"
    using that by (simp add: initialize_weights_own)
  have b: "case init_from of
         Some p \<Rightarrow>
           initialize_weights tr init_from rnd w =
             Saver_restore (sess tr) p (print_stderr (''Initializing from '' @ p) w)
       | None \<Rightarrow>
           initialize_weights tr init_from rnd w =
             run_global_variables_initializer (sess tr) rnd
               (print_stderr ''Bootstrapping with random weights'' w)"
    if "\<not> (\<exists>f. save_file tr = Some f \<and> os_path_exists w (f @ ''.meta''))"
    using that
    by (simp add: initialize_weights_init_from initialize_weights_random split: option.splits)
  have c: "(save_file tr = Some f \<and> os_path_exists w (f @ ''.meta'') \<and>
       files w (data_path f) = Some (DataFile v) \<longrightarrow>
         (\<exists>w'. initialize_weights tr init_from rnd w = Inr w' \<and>
                sess_vars (sessions w' ! sess tr) = Some v)) \<and>
      (\<not> (\<exists>f. save_file tr = Some f \<and> os_path_exists w (f @ ''.meta'')) \<and>
       init_from = Some p \<and> files w (data_path p) = Some (DataFile v) \<longrightarrow>
         (\<exists>w'. initialize_weights tr init_from rnd w = Inr w' \<and>
                sess_vars (sessions w' ! sess tr) = Some v)) \<and>
      (\<not> (\<exists>f. save_file tr = Some f \<and> os_path_exists w (f @ ''.meta'')) \<and>
       init_from = None \<longrightarrow>
         (\<exists>w'. initialize_weights tr init_from rnd w = Inr w' \<and>
                sess_vars (sessions w' ! sess tr) =
                  Some \<lparr>weights = rnd, step_counter = 0\<rparr>))"
    if ctx: "sess tr < length (sessions w) \<and>
      sess_graph (sessions w ! sess tr) = get_default_graph w \<and>
      has_variables (graphs w ! get_default_graph w)"
  proof (intro conjI impI)
    assume h: "save_file tr = Some f \<and> os_path_exists w (f @ ''.meta'') \<and>
       files w (data_path f) = Some (DataFile v)"
    then have "initialize_weights tr init_from rnd w = Saver_restore (sess tr) f w"
      by (simp add: initialize_weights_own)
    with Saver_restore_succeeds [of w "sess tr" f v] ctx h
    show "\<exists>w'. initialize_weights tr init_from rnd w = Inr w' \<and>
                sess_vars (sessions w' ! sess tr) = Some v"
      by simp
  next
    assume h: "\<not> (\<exists>f. save_file tr = Some f \<and> os_path_exists w (f @ ''.meta'')) \<and>
       init_from = Some p \<and> files w (data_path p) = Some (DataFile v)"
    let ?w = "print_stderr (''Initializing from '' @ p) w"
    from h have "initialize_weights tr init_from rnd w = Saver_restore (sess tr) p ?w"
      by (simp add: initialize_weights_init_from)
    with Saver_restore_succeeds [of ?w "sess tr" p v] ctx h
    show "\<exists>w'. initialize_weights tr init_from rnd w = Inr w' \<and>
                sess_vars (sessions w' ! sess tr) = Some v"
      by simp
  next
    assume h: "\<not> (\<exists>f. save_file tr = Some f \<and> os_path_exists w (f @ ''.meta'')) \<and>
       init_from = None"
    let ?w = "print_stderr ''Bootstrapping with random weights'' w"
    from h have "initialize_weights tr init_from rnd w =
        run_global_variables_initializer (sess tr) rnd ?w"
      by (simp add: initialize_weights_random)
    with run_global_variables_initializer_succeeds [of ?w "sess tr" rnd] ctx
    show "\<exists>w'. initialize_weights tr init_from rnd w = Inr w' \<and>
                sess_vars (sessions w' ! sess tr) =
                  Some \<lparr>weights = rnd, step_counter = 0\<rparr>"
      by simp
  qed
  from a b c show ?thesis by blast
qed

text \<open>
  Three stores inside \<^verbatim>\<open>train\<close>: with both checkpoints the save location wins over
  \<open>init_from\<close>; with the older one only, \<open>init_from\<close> is restored; with none, the weights
  are the random ones.
\<close>

lemma both_world_train_graph:
  "both_world = (train_graph demo_trainer demo_world)\<lparr>files := both_files\<rparr>"
  by (simp add: both_world_def train_graph_def demo_trainer_def demo_world_def
      add_node_def as_default_enter_def get_default_graph_def Let_def)

lemma both_world_context:
  "sess demo_trainer < length (sessions both_world) \<and>
   sess_graph (sessions both_world ! sess demo_trainer) = get_default_graph both_world \<and>
   has_variables (graphs both_world ! get_default_graph both_world)"
  by (simp add: demo_trainer_def both_world_def get_default_graph_def has_variables_def)

theorem initialize_weights_precedence_witness:
  "(\<exists>w'. initialize_weights demo_trainer (Some ''old'') [(''conv2d/kernel'', [0])] both_world =
           Inr w' \<and>
         sess_vars (sessions w' ! 0) = Some newer) \<and>
   (\<exists>w'. initialize_weights demo_trainer (Some ''old'') [(''conv2d/kernel'', [0])]
           old_only_world = Inr w' \<and>
         sess_vars (sessions w' ! 0) = Some older) \<and>
   (\<exists>w'. initialize_weights demo_trainer None [(''conv2d/kernel'', [0])]
           no_checkpoint_world = Inr w' \<and>
         sess_vars (sessions w' ! 0) =
           Some \<lparr>weights = [(''conv2d/kernel'', [0])], step_counter = 0\<rparr>)"
proof -
  let ?rnd = "[(''conv2d/kernel'', [0::real])]"
  have ctx1: "sess demo_trainer < length (sessions both_world) \<and>
      sess_graph (sessions both_world ! sess demo_trainer) = get_default_graph both_world \<and>
      has_variables (graphs both_world ! get_default_graph both_world)"
    by (rule both_world_context)
  have ctx2: "sess demo_trainer < length (sessions old_only_world) \<and>
      sess_graph (sessions old_only_world ! sess demo_trainer) = get_default_graph old_only_world \<and>
      has_variables (graphs old_only_world ! get_default_graph old_only_world)"
    using both_world_context by (simp add: old_only_world_def get_default_graph_def)
  have ctx3: "sess demo_trainer < length (sessions no_checkpoint_world) \<and>
      sess_graph (sessions no_checkpoint_world ! sess demo_trainer) =
        get_default_graph no_checkpoint_world \<and>
      has_variables (graphs no_checkpoint_world ! get_default_graph no_checkpoint_world)"
    using both_world_context by (simp add: no_checkpoint_world_def get_default_graph_def)
  have own1: "save_file demo_trainer = Some ''m'' \<and> os_path_exists both_world (''m'' @ ''.meta'') \<and>
      files both_world (data_path ''m'') = Some (DataFile newer)"
    by (simp add: demo_trainer_def both_world_def both_files_def os_path_exists_def data_path_def)
  have own2: "\<not> (\<exists>f. save_file demo_trainer = Some f \<and> os_path_exists old_only_world (f @ ''.meta'')) \<and>
      Some ''old'' = Some ''old'' \<and> files old_only_world (data_path ''old'') = Some (DataFile older)"
    by (simp add: demo_trainer_def old_only_world_def os_path_exists_def data_path_def)
  have own3: "\<not> (\<exists>f. save_file demo_trainer = Some f \<and>
      os_path_exists no_checkpoint_world (f @ ''.meta'')) \<and> (None :: string option) = None"
    by (simp add: no_checkpoint_world_def os_path_exists_def)
  have 1: "\<exists>w'. initialize_weights demo_trainer (Some ''old'') ?rnd both_world = Inr w' \<and>
         sess_vars (sessions w' ! sess demo_trainer) = Some newer"
    using initialize_weights_precedence
      [of demo_trainer "''m''" both_world "Some ''old''" ?rnd newer] ctx1 own1
    by blast
  have 2: "\<exists>w'. initialize_weights demo_trainer (Some ''old'') ?rnd old_only_world = Inr w' \<and>
         sess_vars (sessions w' ! sess demo_trainer) = Some older"
    using initialize_weights_precedence
      [of demo_trainer _ old_only_world "Some ''old''" ?rnd older "''old''"] ctx2 own2
    by blast
  have 3: "\<exists>w'. initialize_weights demo_trainer None ?rnd no_checkpoint_world = Inr w' \<and>
         sess_vars (sessions w' ! sess demo_trainer) = Some \<lparr>weights = ?rnd, step_counter = 0\<rparr>"
    using initialize_weights_precedence
      [of demo_trainer _ no_checkpoint_world None ?rnd] ctx3 own3
    by blast
  from 1 2 3 show ?thesis by (simp add: demo_trainer_def)
qed

lemma add_node_last:
  assumes "get_default_graph w = length gs" and "graphs w = gs @ [ns]"
  shows "graphs (add_node n w) = gs @ [ns @ [n]]"
  using assms by (simp add: add_node_def Let_def)

lemma bootstrap_frame:
  assumes sf: "save_file tr = Some f"
  shows "\<exists>w'. bootstrap tr rnd w = Inr w' \<and>
       sessions w' = sessions w @
         [\<lparr>sess_graph = length (graphs w), sess_vars = Some \<lparr>weights = rnd, step_counter = 0\<rparr>\<rparr>] \<and>
       graphs w' = graphs w @
         [[InferenceInput, DualNet TRAIN_BATCH_SIZE True (hparams tr), TrainOps (hparams tr),
           GlobalInit, Saver]] \<and>
       default_stack w' = default_stack w \<and>
       files w' (data_path f) = Some (DataFile \<lparr>weights = rnd, step_counter = 0\<rparr>) \<and>
       os_path_exists w' (f @ ''.meta'')"
proof -
  let ?g = "length (graphs w)" and ?s = "length (sessions w)"
  let ?v = "\<lparr>weights = rnd, step_counter = 0\<rparr>"
  define w2 where "w2 = snd (tf_Session ?g (snd (tf_Graph w)))"
  define w3 where "w3 = as_default_enter (sess_graph (sessions w2 ! ?s)) w2"
  define w6 where "w6 = add_node (TrainOps (hparams tr))
     (add_node (DualNet TRAIN_BATCH_SIZE True (hparams tr)) (add_node InferenceInput w3))"
  define w7 where "w7 = set_vars ?s ?v (add_node GlobalInit w6)"
  define w7' where "w7' = add_node Saver w7"
  have w2: "graphs w2 = graphs w @ [[]]"
    "sessions w2 = sessions w @ [\<lparr>sess_graph = ?g, sess_vars = None\<rparr>]"
    "default_stack w2 = default_stack w"
    by (simp_all add: w2_def tf_Graph_def tf_Session_def)
  have w3: "graphs w3 = graphs w @ [[]]" "sessions w3 = sessions w2"
    "default_stack w3 = ?g # default_stack w" "get_default_graph w3 = ?g"
    by (simp_all add: w3_def w2)
  have w6: "graphs w6 = graphs w @
      [[InferenceInput, DualNet TRAIN_BATCH_SIZE True (hparams tr), TrainOps (hparams tr)]]"
    "sessions w6 = sessions w2" "default_stack w6 = ?g # default_stack w"
    "get_default_graph w6 = ?g"
    unfolding w6_def
    by (simp_all add: w3 add_node_last [where gs = "graphs w"])
  have w7: "graphs w7 = graphs w @
      [[InferenceInput, DualNet TRAIN_BATCH_SIZE True (hparams tr), TrainOps (hparams tr),
        GlobalInit]]"
    "default_stack w7 = ?g # default_stack w" "get_default_graph w7 = ?g"
    unfolding w7_def
    by (simp_all add: w6 add_node_last [where gs = "graphs w"])
  have w7s: "sessions w7 = sessions w @ [\<lparr>sess_graph = ?g, sess_vars = Some ?v\<rparr>]"
    by (simp add: w7_def set_vars_def w6 w2)
  have init: "run_global_variables_initializer ?s rnd w6 = Inr w7"
    unfolding run_global_variables_initializer_def Let_def w7_def
    by (simp add: w6 w2 add_node_last [where gs = "graphs w"] has_variables_def)
  have w7': "graphs w7' = graphs w @
      [[InferenceInput, DualNet TRAIN_BATCH_SIZE True (hparams tr), TrainOps (hparams tr),
        GlobalInit, Saver]]"
    "sessions w7' = sessions w7" "default_stack w7' = ?g # default_stack w"
    unfolding w7'_def
    by (simp_all add: w7 add_node_last [where gs = "graphs w"])
  have "sess_vars (sessions w7 ! ?s) = Some ?v"
    "has_variables (graphs w7 ! get_default_graph w7)"
    "sess_graph (sessions w7 ! ?s) = get_default_graph w7"
    by (simp_all add: w7 w7s has_variables_def)
  from Saver_save_writes [OF this, of f] obtain w8 where
    save: "Saver_save ?s (Some f) w7 = Inr w8"
    and f8: "files w8 (data_path f) = Some (DataFile ?v)" "files w8 (f @ ''.meta'') \<noteq> None"
    by blast
  have w8: "sessions w8 = sessions w7'" "graphs w8 = graphs w7'" "default_stack w8 = default_stack w7'"
    using Saver_save_frame [OF save] by (simp_all add: w7'_def)
  have "bootstrap tr rnd w = Inr (as_default_exit w8)"
    using save sf init
    by (simp add: bootstrap_def Let_def tf_Graph_def tf_Session_def w6_def w3_def w2_def)
  then show ?thesis
    using f8 by (simp add: w8 w7' w7s os_path_exists_def)
qed

text \<open>
  C10. \<^verbatim>\<open>bootstrap\<close> works in a session and a graph it creates: every session and
  every graph that existed before, the trainer's own among them, is left as it was (so
  variables that were not initialised stay so), the new graph holds what was built, the
  new session holds the random weights, and the checkpoint holds those weights.
\<close>

theorem bootstrap_leaves_trainer_session:
  assumes "save_file tr = Some f"
    and "sess tr < length (sessions w)"
    and "sess_graph (sessions w ! sess tr) < length (graphs w)"
  shows "\<exists>w'. bootstrap tr rnd w = Inr w' \<and>
       sessions w' ! sess tr = sessions w ! sess tr \<and>
       graphs w' ! sess_graph (sessions w ! sess tr) = graphs w ! sess_graph (sessions w ! sess tr) \<and>
       (\<forall>s < length (sessions w). sessions w' ! s = sessions w ! s) \<and>
       (\<forall>g < length (graphs w). graphs w' ! g = graphs w ! g) \<and>
       sess_graph (sessions w' ! length (sessions w)) = length (graphs w) \<and>
       sess_vars (sessions w' ! length (sessions w)) = Some \<lparr>weights = rnd, step_counter = 0\<rparr> \<and>
       graphs w' ! length (graphs w) =
         [InferenceInput, DualNet TRAIN_BATCH_SIZE True (hparams tr), TrainOps (hparams tr),
          GlobalInit, Saver] \<and>
       files w' (data_path f) = Some (DataFile \<lparr>weights = rnd, step_counter = 0\<rparr>)"
proof -
  from bootstrap_frame [OF assms(1), of rnd w] obtain w' where
    b: "bootstrap tr rnd w = Inr w'" and
    s: "sessions w' = sessions w @
         [\<lparr>sess_graph = length (graphs w), sess_vars = Some \<lparr>weights = rnd, step_counter = 0\<rparr>\<rparr>]" and
    g: "graphs w' = graphs w @
         [[InferenceInput, DualNet TRAIN_BATCH_SIZE True (hparams tr), TrainOps (hparams tr),
           GlobalInit, Saver]]" and
    f: "files w' (data_path f) = Some (DataFile \<lparr>weights = rnd, step_counter = 0\<rparr>)"
    by blast
  show ?thesis
    using b f assms(2,3) by (simp add: s g nth_append)
qed

lemma DualNetworkTrainer_fresh:
  assumes "DualNetworkTrainer flog N sf overrides w = Inr (tr, w1)"
  shows "save_file tr = sf \<and> sess tr = length (sessions w) \<and>
     sessions w1 = sessions w @ [\<lparr>sess_graph = length (graphs w), sess_vars = None\<rparr>] \<and>
     graphs w1 = graphs w @ [[]]"
  using assms
  by (auto simp: DualNetworkTrainer_def tf_Graph_def tf_Session_def Let_def split: sum.splits)

text \<open>The example trainer and store are what the constructor gives.\<close>

lemma get_default_hyperparams_19:
  "get_default_hyperparams exact_log 19 Map.empty = Inr hparams_19"
proof -
  have "round_power_of_two exact_log ((of_int 19)\<^sup>2 / 3) = Inr (PyInt 128)"
    using round_power_of_two_19 by (simp add: power2_eq_square)
  then show ?thesis
    by (simp add: get_default_hyperparams_def hparams_19_def)
qed

lemma DualNetworkTrainer_19:
  "DualNetworkTrainer exact_log 19 (Some ''m'') Map.empty world_init = Inr (demo_trainer, demo_world)"
  by (simp add: DualNetworkTrainer_def get_default_hyperparams_19 tf_Graph_def tf_Session_def
      world_init_def demo_trainer_def demo_world_def)

theorem bootstrap_leaves_trainer_session_witness:
  "DualNetworkTrainer exact_log 19 (Some ''m'') Map.empty world_init = Inr (demo_trainer, demo_world) \<and>
   (\<exists>w'. bootstrap demo_trainer [(''conv2d/kernel'', [1 / 2])] demo_world = Inr w' \<and>
      sessions w' ! 0 = \<lparr>sess_graph = 1, sess_vars = None\<rparr> \<and>
      graphs w' ! 1 = [] \<and>
      sess_graph (sessions w' ! 1) = 2 \<and>
      sess_vars (sessions w' ! 1) =
        Some \<lparr>weights = [(''conv2d/kernel'', [1 / 2])], step_counter = 0\<rparr> \<and>
      files w' (data_path ''m'') =
        Some (DataFile \<lparr>weights = [(''conv2d/kernel'', [1 / 2])], step_counter = 0\<rparr>))"
proof -
  have h: "save_file demo_trainer = Some ''m''"
    "sess demo_trainer < length (sessions demo_world)"
    "sess_graph (sessions demo_world ! sess demo_trainer) < length (graphs demo_world)"
    by (simp_all add: demo_trainer_def demo_world_def)
  from bootstrap_leaves_trainer_session [OF h, of "[(''conv2d/kernel'', [1 / 2])]"]
  obtain w' where
    "bootstrap demo_trainer [(''conv2d/kernel'', [1 / 2])] demo_world = Inr w'"
    "sessions w' ! sess demo_trainer = sessions demo_world ! sess demo_trainer"
    "graphs w' ! sess_graph (sessions demo_world ! sess demo_trainer) =
       graphs demo_world ! sess_graph (sessions demo_world ! sess demo_trainer)"
    "sess_graph (sessions w' ! length (sessions demo_world)) = length (graphs demo_world)"
    "sess_vars (sessions w' ! length (sessions demo_world)) =
       Some \<lparr>weights = [(''conv2d/kernel'', [1 / 2])], step_counter = 0\<rparr>"
    "files w' (data_path ''m'') =
       Some (DataFile \<lparr>weights = [(''conv2d/kernel'', [1 / 2])], step_counter = 0\<rparr>)"
    by blast
  then show ?thesis
    using DualNetworkTrainer_19 by (auto simp: demo_trainer_def demo_world_def)
qed


section \<open>Properties of the inference engine\<close>

text \<open>
  C6. With \<open>use_random_symmetry\<close> set, \<^verbatim>\<open>run_many\<close> feeds the forward pass, for each
  example \<open>i\<close>, the features of position \<open>i\<close> under the symmetry drawn for \<open>i\<close>, one of
  the eight; it returns, for each example, the policy of the forward pass under the
  inverse of that same symmetry, and it returns the values of the forward pass as they
  are.
\<close>

theorem run_many_symmetry:
  "run_many c choice positions True =
      (map2 (\<lambda>s pi. apply_symmetry_pi c (invert_symmetry c s) pi) (syms_drawn choice positions)
         (policy_output (forward c (features_fed c choice positions))),
       value_output (forward c (features_fed c choice positions))) \<and>
   length (features_fed c choice positions) = length positions \<and>
   (\<forall>i < length positions.
      features_fed c choice positions ! i =
        apply_symmetry_feat c (choice i) (extract_features c (positions ! i)) \<and>
      (length (policy_output (forward c (features_fed c choice positions))) = length positions \<longrightarrow>
         fst (run_many c choice positions True) ! i =
           apply_symmetry_pi c (invert_symmetry c (choice i))
             (policy_output (forward c (features_fed c choice positions)) ! i))) \<and>
   snd (run_many c choice positions True) =
     value_output (forward c (features_fed c choice positions))"
proof -
  let ?fed = "features_fed c choice positions"
  have run: "run_many c choice positions True =
      (map2 (\<lambda>s pi. apply_symmetry_pi c (invert_symmetry c s) pi) (syms_drawn choice positions)
         (policy_output (forward c ?fed)),
       value_output (forward c ?fed))"
    by (simp add: run_many_def randomize_symmetries_feat_def invert_symmetries_pi_def
        Let_def syms_drawn_def features_fed_def)
  have len: "length ?fed = length positions"
    by (simp add: features_fed_def syms_drawn_def)
  have "?fed ! i = apply_symmetry_feat c (choice i) (extract_features c (positions ! i))"
    if "i < length positions" for i
    using that by (simp add: features_fed_def syms_drawn_def)
  moreover have "fst (run_many c choice positions True) ! i =
             apply_symmetry_pi c (invert_symmetry c (choice i))
               (policy_output (forward c ?fed) ! i)"
    if "i < length positions"
      "length (policy_output (forward c ?fed)) = length positions" for i
    using that unfolding run by (simp add: syms_drawn_def)
  ultimately show ?thesis
    using run len by simp
qed

text \<open>
  Two positions, the first under symmetry 1 and the second under symmetry 5: the
  policies come back under symmetries 6 and 2, the values untouched.
\<close>

theorem run_many_symmetry_witness:
  "run_many demo_collaborators demo_choice [3, 4] True = ([64, 29], [4, 9]) \<and>
   features_fed demo_collaborators demo_choice [3, 4] = [4, 9]"
proof -
  have fed: "features_fed demo_collaborators demo_choice [3, 4] = [4, 9]"
    by (simp add: features_fed_def syms_drawn_def demo_collaborators_def demo_choice_def)
  have syms: "syms_drawn demo_choice [3::nat, 4] = [Sym1, Sym5]"
    by (simp add: syms_drawn_def demo_choice_def)
  have "run_many demo_collaborators demo_choice [3, 4] True =
      (map2 (\<lambda>s pi. apply_symmetry_pi demo_collaborators (invert_symmetry demo_collaborators s) pi)
         (syms_drawn demo_choice [3::nat, 4])
         (policy_output (forward demo_collaborators (features_fed demo_collaborators demo_choice [3, 4]))),
       value_output (forward demo_collaborators (features_fed demo_collaborators demo_choice [3, 4])))"
    by (rule run_many_symmetry [THEN conjunct1])
  then show ?thesis
    unfolding fed syms by (simp add: demo_collaborators_def)
qed

end
